theory Spec2Isabelle
  imports Complex_Main
begin

section \<open>Bayesian Personalized Ranking: the training kernel of \<^verbatim>\<open>implicit/bpr.pyx\<close>\<close>

text \<open>
  The development embeds \<^verbatim>\<open>bpr_update\<close> (the update kernel) and
  \<^verbatim>\<open>BayesianPersonalizedRanking.fit\<close> (the training entry point).

  Conventions of the embedding.
  \<^item> A C \<^verbatim>\<open>float\<close> or \<^verbatim>\<open>double\<close> is a real number and \<^verbatim>\<open>exp\<close> is the real
    exponential: the rounding of the arithmetic, overflow and NaN are not modelled. The
    one conversion the kernel makes from \<^verbatim>\<open>double\<close> to \<^verbatim>\<open>float\<close>, the assignment to
    \<^verbatim>\<open>z\<close>, is modelled by \<open>to_float\<close>, since the counter of the kernel compares the
    converted value with \<open>0.5\<close>.
  \<^item> A two-dimensional array is a store of cells addressed by row and column together
    with its shape. The row pointers \<^verbatim>\<open>user\<close>, \<^verbatim>\<open>liked\<close> and \<^verbatim>\<open>disliked\<close> of the kernel
    are row numbers into that store, so two pointers to the same row alias.
  \<^item> The kernel is compiled with \<^verbatim>\<open>boundscheck(False)\<close>: an access outside an array is
    undefined behaviour in the compiled code. The model stops there with the value
    \<open>OutOfBounds\<close>.
  \<^item> The body of the \<^verbatim>\<open>prange\<close> loop is executed once per sample position, each
    execution by one of the OpenMP threads. The model runs the bodies one after the
    other in some order; which thread runs the \<open>k\<close>-th body is a parameter (the schedule).
    Reads and writes of two bodies are not interleaved below that granularity.
  \<^item> What the C++ standard library, NumPy's global generator and SciPy return is a
    parameter: the sampler \<open>draw\<close> stands for
    \<^verbatim>\<open>uniform_int_distribution<int>::operator()\<close> applied to a generator, which it
    advances, and \<open>astype_entries\<close> for the entries stored by the result of the method
    \<^verbatim>\<open>astype\<close> of a sparse matrix.
  \<^item> The typed memoryviews of the kernel fix the element types: the index arrays hold C
    \<^verbatim>\<open>int\<close>s, the factor arrays single-precision values. The two factor arrays are
    distinct objects. The count of one call is at most the number of sample positions,
    which is itself a C \<^verbatim>\<open>int\<close>, so the counter does not overflow.
\<close>

subsection \<open>Arrays\<close>

datatype error = IndexError | ValueError | ZeroDivisionError | OutOfBounds

record ndarray =
  shape0 :: nat
  shape1 :: nat
  cell :: "nat \<Rightarrow> nat \<Rightarrow> real"

definition put :: "ndarray \<Rightarrow> nat \<Rightarrow> nat \<Rightarrow> real \<Rightarrow> ndarray" where
  "put M i j v = M\<lparr>cell := (cell M)(i := (cell M i)(j := v))\<rparr>"

subsection \<open>Conversion to single precision\<close>

text \<open>
  The value of a \<^verbatim>\<open>float\<close> variable assigned a \<^verbatim>\<open>double\<close>: the nearest number with
  a significand of 24 bits, the even one of two nearest, with the subnormal numbers
  below \<open>2 powr (- 126)\<close>. Overflow to infinity is not modelled; the kernel converts values
  between 0 and 1 only.
\<close>

definition round_even :: "real \<Rightarrow> int" where
  "round_even r =
     (let f = \<lfloor>r\<rfloor>
      in if r - of_int f < 1 / 2 then f
         else if 1 / 2 < r - of_int f then f + 1
         else if even f then f else f + 1)"

definition to_float :: "real \<Rightarrow> real" where
  "to_float x =
     (if x = 0 then 0
      else
        let e = max \<lfloor>log 2 \<bar>x\<bar>\<rfloor> (- 126);
            ulp = 2 powr (of_int e - 23)
        in of_int (round_even (x / ulp)) * ulp)"

subsection \<open>The update kernel \<^verbatim>\<open>bpr_update\<close>\<close>

text \<open>The mutable state of one call: the generators, both factor matrices, the counter.\<close>

record 'g kernel_state =
  st_rng :: "'g list"
  st_X :: ndarray
  st_Y :: ndarray
  st_correct :: nat

text \<open>
  \<^verbatim>\<open>score = 0; for j in range(factors + 1): score = score + user[j] * (liked[j] - disliked[j])\<close>
\<close>

definition score_loop :: "ndarray \<Rightarrow> ndarray \<Rightarrow> nat \<Rightarrow> nat \<Rightarrow> nat \<Rightarrow> nat \<Rightarrow> real" where
  "score_loop X Y user liked disliked n =
     foldl (\<lambda>score j. score + cell X user j * (cell Y liked j - cell Y disliked j))
       0 [0..<n]"

text \<open>One pass of the body of \<^verbatim>\<open>for j in range(factors)\<close>: three assignments in order.\<close>

definition sgd_column ::
  "real \<Rightarrow> real \<Rightarrow> real \<Rightarrow> nat \<Rightarrow> nat \<Rightarrow> nat \<Rightarrow> ndarray \<times> ndarray \<Rightarrow> nat \<Rightarrow> ndarray \<times> ndarray"
where
  "sgd_column learning_rate reg z user liked disliked XY j =
     (let X = fst XY; Y = snd XY;
          temp = cell X user j;
          X1 = put X user j
                 (cell X user j
                    + learning_rate * (z * (cell Y liked j - cell Y disliked j) - reg * cell X user j));
          Y1 = put Y liked j
                 (cell Y liked j + learning_rate * (z * temp - reg * cell Y liked j));
          Y2 = put Y1 disliked j
                 (cell Y1 disliked j + learning_rate * (- z * temp - reg * cell Y1 disliked j))
      in (X1, Y2))"

text \<open>The two assignments to the bias column \<^verbatim>\<open>factors\<close> of the item rows.\<close>

definition sgd_bias :: "real \<Rightarrow> real \<Rightarrow> real \<Rightarrow> nat \<Rightarrow> nat \<Rightarrow> nat \<Rightarrow> ndarray \<Rightarrow> ndarray" where
  "sgd_bias learning_rate reg z liked disliked factors Y =
     (let Y1 = put Y liked factors
                 (cell Y liked factors + learning_rate * (z - reg * cell Y liked factors));
          Y2 = put Y1 disliked factors
                 (cell Y1 disliked factors
                    + learning_rate * (- z - reg * cell Y1 disliked factors))
      in Y2)"

text \<open>
  The body of the \<^verbatim>\<open>prange\<close> loop for loop index \<open>i\<close>, run by thread \<open>thread_id\<close>.
  \<open>draw\<close> is the sampler; \<open>dists\<close> holds the bounds each thread's distribution was built
  with. The checks are the bounds that the compiled code does not check: the thread's
  slot in both vectors, the two sample positions in \<^verbatim>\<open>itemids\<close> and \<^verbatim>\<open>userids\<close>, the
  three rows, and the \<^verbatim>\<open>factors + 1\<close> columns read through each row pointer
  (\<^verbatim>\<open>factors = X.shape[1] - 1\<close>).
\<close>

definition bpr_sample ::
  "(int \<times> int \<Rightarrow> 'g \<Rightarrow> nat \<times> 'g) \<Rightarrow> (int \<times> int) list \<Rightarrow> nat list \<Rightarrow> nat list \<Rightarrow> real \<Rightarrow> real
     \<Rightarrow> nat \<Rightarrow> nat \<Rightarrow> 'g kernel_state \<Rightarrow> error + 'g kernel_state"
where
  "bpr_sample draw dists userids itemids learning_rate reg i thread_id st =
     (if \<not> (thread_id < length (st_rng st) \<and> thread_id < length dists) then Inl OutOfBounds
      else
        let r1 = draw (dists ! thread_id) (st_rng st ! thread_id);
            liked_index = fst r1;
            r2 = draw (dists ! thread_id) (snd r1);
            disliked_index = fst r2;
            rng' = (st_rng st)[thread_id := snd r2]
        in
        if \<not> (liked_index < length itemids \<and> disliked_index < length itemids
                \<and> liked_index < length userids) then Inl OutOfBounds
        else
          let liked_id = itemids ! liked_index;
              disliked_id = itemids ! disliked_index;
              user = userids ! liked_index;
              X = st_X st; Y = st_Y st
          in
          if \<not> (user < shape0 X \<and> liked_id < shape0 Y \<and> disliked_id < shape0 Y
                  \<and> 0 < shape1 X \<and> shape1 X \<le> shape1 Y) then Inl OutOfBounds
          else
            let factors = shape1 X - 1;
                score = score_loop X Y user liked_id disliked_id (factors + 1);
                z = to_float (1 / (1 + exp score));
                correct' = (if z < 1 / 2 then st_correct st + 1 else st_correct st);
                XY = foldl (sgd_column learning_rate reg z user liked_id disliked_id)
                       (X, Y) [0..<factors];
                Y' = sgd_bias learning_rate reg z liked_id disliked_id factors (snd XY)
            in Inr \<lparr>st_rng = rng', st_X = fst XY, st_Y = Y', st_correct = correct'\<rparr>)"

text \<open>
  The \<^verbatim>\<open>prange\<close> loop: the bodies in the order they run, each with its loop index
  and the thread that runs it.
\<close>

fun bpr_loop ::
  "(int \<times> int \<Rightarrow> 'g \<Rightarrow> nat \<times> 'g) \<Rightarrow> (int \<times> int) list \<Rightarrow> nat list \<Rightarrow> nat list \<Rightarrow> real \<Rightarrow> real
     \<Rightarrow> (nat \<times> nat) list \<Rightarrow> 'g kernel_state \<Rightarrow> error + 'g kernel_state"
where
  "bpr_loop draw dists userids itemids learning_rate reg [] st = Inr st"
| "bpr_loop draw dists userids itemids learning_rate reg (it # its) st =
     (case bpr_sample draw dists userids itemids learning_rate reg (fst it) (snd it) st of
        Inl e \<Rightarrow> Inl e
      | Inr st' \<Rightarrow> bpr_loop draw dists userids itemids learning_rate reg its st')"

text \<open>
  \<^verbatim>\<open>bpr_update\<close>: \<open>sched k\<close> is the thread that runs the \<open>k\<close>-th body. The result
  holds the returned count together with the arrays and generators the call mutated.
\<close>

definition bpr_update ::
  "(int \<times> int \<Rightarrow> 'g \<Rightarrow> nat \<times> 'g) \<Rightarrow> (nat \<Rightarrow> nat) \<Rightarrow> 'g list \<Rightarrow> (int \<times> int) list \<Rightarrow> nat list \<Rightarrow> nat list
     \<Rightarrow> ndarray \<Rightarrow> ndarray \<Rightarrow> real \<Rightarrow> real \<Rightarrow> nat \<Rightarrow> error + 'g kernel_state"
where
  "bpr_update draw sched rng dists userids itemids X Y learning_rate reg num_threads =
     (let samples = length userids
      in bpr_loop draw dists userids itemids learning_rate reg
           (map (\<lambda>i. (i, sched i)) [0..<samples])
           \<lparr>st_rng = rng, st_X = X, st_Y = Y, st_correct = 0\<rparr>)"

subsection \<open>The interaction matrix and the model object\<close>

text \<open>
  The input of \<^verbatim>\<open>fit\<close> in coordinate form (\<^verbatim>\<open>scipy.sparse.coo_matrix\<close>): the shape, the
  row (item) and column (user) number of every stored entry, the stored values and their
  element type. The conversion \<^verbatim>\<open>tocoo()\<close> of another sparse format belongs to SciPy and
  is taken as done. Row and column numbers are natural numbers: SciPy rejects negative ones.
  A position may be stored more than once, and a stored value may be zero.
\<close>

datatype dtype = Float32 | Float64 | Int32 | Int64 | Bool

record coo_matrix =
  shape :: "nat \<times> nat"
  row :: "nat list"
  col :: "nat list"
  data :: "real list"
  dtype :: dtype

text \<open>The attributes of a \<^verbatim>\<open>BayesianPersonalizedRanking\<close> object.\<close>

record bpr =
  factors :: nat
  learning_rate :: real
  iterations :: nat
  regularization :: real
  use_gpu :: bool
  num_threads :: nat
  item_factors :: "ndarray option"
  user_factors :: "ndarray option"

text \<open>
  What the surroundings of one call of \<^verbatim>\<open>fit\<close> supply:
  the arrays returned by the two calls of \<^verbatim>\<open>np.random.rand\<close>, the \<open>k\<close>-th value returned
  by \<^verbatim>\<open>np.random.randint(2**31)\<close>, \<^verbatim>\<open>multiprocessing.cpu_count()\<close>,
  \<^verbatim>\<open>implicit.cuda.HAS_CUDA\<close>, the constructor of \<^verbatim>\<open>mt19937\<close> from a seed, the sampler,
  the thread OpenMP gives the \<open>k\<close>-th loop body of each epoch, the device kernel, and
  the entries (row numbers, column numbers and values) of the matrix SciPy's
  \<^verbatim>\<open>astype\<close> returns for a matrix and an element type: the cast may merge positions
  stored more than once and store the entries in another order, so nothing is fixed
  here about them.
\<close>

record 'g env =
  rand_items :: "nat \<Rightarrow> nat \<Rightarrow> real"
  rand_users :: "nat \<Rightarrow> nat \<Rightarrow> real"
  randint :: "nat \<Rightarrow> nat"
  cpu_count :: nat
  HAS_CUDA :: bool
  mt19937 :: "nat \<Rightarrow> 'g"
  uniform_int :: "int \<times> int \<Rightarrow> 'g \<Rightarrow> nat \<times> 'g"
  omp_thread :: "nat \<Rightarrow> nat \<Rightarrow> nat"
  cu_bpr_update :: "coo_matrix \<Rightarrow> ndarray \<Rightarrow> ndarray \<Rightarrow> real \<Rightarrow> real \<Rightarrow> nat \<Rightarrow> nat \<times> ndarray \<times> ndarray"
  astype_entries :: "coo_matrix \<Rightarrow> dtype \<Rightarrow> nat list \<times> nat list \<times> real list"

text \<open>
  \<^verbatim>\<open>Ciu.astype(t)\<close>: a matrix of the same shape with element type \<open>t\<close>, storing the
  entries the surroundings name.
\<close>

definition astype :: "'g env \<Rightarrow> coo_matrix \<Rightarrow> dtype \<Rightarrow> coo_matrix" where
  "astype E m t =
     \<lparr>shape = shape m,
      row = fst (astype_entries E m t),
      col = fst (snd (astype_entries E m t)),
      data = snd (snd (astype_entries E m t)),
      dtype = t\<rparr>"

subsection \<open>NumPy operations used by \<^verbatim>\<open>fit\<close>\<close>

text \<open>
  \<^verbatim>\<open>np.bincount(x)\<close> without \<^verbatim>\<open>minlength\<close>: one count per value from \<open>0\<close> to the
  largest value of \<open>x\<close>, and the empty array for an empty \<open>x\<close>.
\<close>

definition bincount :: "nat list \<Rightarrow> nat list" where
  "bincount xs = (if xs = [] then [] else map (count_list xs) [0..<Max (set xs) + 1])"

text \<open>
  \<^verbatim>\<open>a[mask] = np.zeros(a.shape[1])\<close> for a one-dimensional boolean mask \<open>msk\<close>: an empty
  mask selects no row, whatever the number of rows of \<^verbatim>\<open>a\<close>; for any other mask NumPy
  raises \<^verbatim>\<open>IndexError\<close> unless the mask has one entry per row of \<^verbatim>\<open>a\<close>.
\<close>

definition setitem_mask_zeros :: "ndarray \<Rightarrow> bool list \<Rightarrow> error + ndarray" where
  "setitem_mask_zeros a msk =
     (if msk \<noteq> [] \<and> length msk \<noteq> shape0 a then Inl IndexError
      else Inr (a\<lparr>cell := (\<lambda>i j. if i < length msk \<and> msk ! i \<and> j < shape1 a then 0
                                  else cell a i j)\<rparr>))"

text \<open>\<^verbatim>\<open>a[:, k] = v\<close>; \<^verbatim>\<open>fit\<close> uses it with \<open>k\<close> the last column of \<open>a\<close>.\<close>

definition setitem_column :: "ndarray \<Rightarrow> nat \<Rightarrow> real \<Rightarrow> ndarray" where
  "setitem_column a k v = a\<lparr>cell := (\<lambda>i j. if i < shape0 a \<and> j = k then v else cell a i j)\<rparr>"

subsection \<open>The training entry point \<^verbatim>\<open>fit\<close>\<close>

text \<open>
  Lines 109 to 113: a retained \<^verbatim>\<open>item_factors\<close> is taken as it is; otherwise a random
  array is stored in the object and the rows of the items without a stored entry are
  zeroed. When the mask assignment raises, the random array is already stored.
\<close>

definition init_item_factors :: "'g env \<Rightarrow> bpr \<Rightarrow> coo_matrix \<Rightarrow> nat \<Rightarrow> (error \<times> bpr) + ndarray" where
  "init_item_factors E self Ciu items =
     (case item_factors self of
        Some Y \<Rightarrow> Inr Y
      | None \<Rightarrow>
          (let Y = \<lparr>shape0 = items, shape1 = factors self + 1, cell = rand_items E\<rparr>
           in case setitem_mask_zeros Y (map (\<lambda>c. c = 0) (bincount (row Ciu))) of
                Inl e \<Rightarrow> Inl (e, self\<lparr>item_factors := Some Y\<rparr>)
              | Inr Y' \<Rightarrow> Inr Y'))"

text \<open>Lines 115 to 121: the same for the users, and then the last column is set to 1.\<close>

definition init_user_factors :: "'g env \<Rightarrow> bpr \<Rightarrow> coo_matrix \<Rightarrow> nat \<Rightarrow> (error \<times> bpr) + ndarray" where
  "init_user_factors E self Ciu users =
     (case user_factors self of
        Some X \<Rightarrow> Inr X
      | None \<Rightarrow>
          (let X = \<lparr>shape0 = users, shape1 = factors self + 1, cell = rand_users E\<rparr>
           in case setitem_mask_zeros X (map (\<lambda>c. c = 0) (bincount (col Ciu))) of
                Inl e \<Rightarrow> Inl (e, self\<lparr>user_factors := Some X\<rparr>)
              | Inr X' \<Rightarrow> Inr (setitem_column X' (factors self) 1)))"

text \<open>
  Lines 140 to 146, the epochs on the host. After each call of the kernel the arguments
  of \<^verbatim>\<open>log.debug\<close> are evaluated: \<^verbatim>\<open>100.0 * correct / len(Ciu.row)\<close> raises
  \<^verbatim>\<open>ZeroDivisionError\<close> for a matrix without stored entries. The arrays are mutated in
  place, so a failure leaves them as they are at that moment.
\<close>

fun fit_epochs ::
  "'g env \<Rightarrow> coo_matrix \<Rightarrow> real \<Rightarrow> real \<Rightarrow> nat \<Rightarrow> (int \<times> int) list \<Rightarrow> nat list
     \<Rightarrow> 'g list \<times> ndarray \<times> ndarray \<Rightarrow> (error \<times> ndarray \<times> ndarray) + ('g list \<times> ndarray \<times> ndarray)"
where
  "fit_epochs E Ciu lr reg nthreads dists [] s = Inr s"
| "fit_epochs E Ciu lr reg nthreads dists (epoch # es) s =
     (case bpr_update (uniform_int E) (omp_thread E epoch) (fst s) dists (col Ciu) (row Ciu)
             (fst (snd s)) (snd (snd s)) lr reg nthreads of
        Inl e \<Rightarrow> Inl (e, snd s)
      | Inr st \<Rightarrow>
          if length (row Ciu) = 0 then Inl (ZeroDivisionError, st_X st, st_Y st)
          else fit_epochs E Ciu lr reg nthreads dists es (st_rng st, st_X st, st_Y st))"

text \<open>
  Lines 156 to 161, the epochs on the device, on the device's copies \<open>X\<close> and \<open>Y\<close>.
  The module \<^verbatim>\<open>implicit.cuda\<close> is not part of the sources at hand: its kernel is the
  parameter \<open>cu_bpr_update\<close>.
\<close>

fun fit_gpu_epochs ::
  "'g env \<Rightarrow> coo_matrix \<Rightarrow> real \<Rightarrow> real \<Rightarrow> nat list \<Rightarrow> ndarray \<times> ndarray \<Rightarrow> error + (ndarray \<times> ndarray)"
where
  "fit_gpu_epochs E Ciu lr reg [] XY = Inr XY"
| "fit_gpu_epochs E Ciu lr reg (epoch # es) XY =
     (let r = cu_bpr_update E Ciu (fst XY) (snd XY) lr reg (randint E epoch)
      in if length (row Ciu) = 0 then Inl ZeroDivisionError
         else fit_gpu_epochs E Ciu lr reg es (snd r))"

text \<open>
  \<^verbatim>\<open>_fit_gpu\<close>. The host arrays of the object change only in the two final calls of
  \<^verbatim>\<open>to_host\<close>.
\<close>

definition fit_gpu :: "'g env \<Rightarrow> bpr \<Rightarrow> coo_matrix \<Rightarrow> ndarray \<Rightarrow> ndarray \<Rightarrow> (error \<times> bpr) + bpr" where
  "fit_gpu E self Ciu_host X Y =
     (if \<not> HAS_CUDA E then Inl (ValueError, self)
      else
        case fit_gpu_epochs E Ciu_host (learning_rate self) (regularization self)
               [0..<iterations self] (X, Y) of
          Inl e \<Rightarrow> Inl (e, self)
        | Inr XY \<Rightarrow> Inr (self\<lparr>user_factors := Some (fst XY), item_factors := Some (snd XY)\<rparr>))"

text \<open>
  \<^verbatim>\<open>fit\<close>. The result is the object after the call, together with the exception when
  the call raises one.
\<close>

definition fit :: "'g env \<Rightarrow> bpr \<Rightarrow> coo_matrix \<Rightarrow> (error \<times> bpr) + bpr" where
  "fit E self item_users =
     (let Ciu = (if dtype item_users \<noteq> Float32 then astype E item_users Float32 else item_users);
          items = fst (shape Ciu);
          users = snd (shape Ciu)
      in
      case init_item_factors E self Ciu items of
        Inl r \<Rightarrow> Inl r
      | Inr Y \<Rightarrow>
          (let self1 = self\<lparr>item_factors := Some Y\<rparr>
           in
           case init_user_factors E self1 Ciu users of
             Inl r \<Rightarrow> Inl r
           | Inr X \<Rightarrow>
               (let self2 = self1\<lparr>user_factors := Some X\<rparr>
                in
                if use_gpu self2 then fit_gpu E self2 Ciu X Y
                else
                  (let nthreads = (if num_threads self2 = 0 then cpu_count E else num_threads self2);
                       rng = map (\<lambda>i. mt19937 E (randint E i)) [0..<nthreads];
                       dists = replicate nthreads (0, int (length (row Ciu)) - 1)
                   in
                   case fit_epochs E Ciu (learning_rate self2) (regularization self2) nthreads dists
                          [0..<iterations self2] (rng, X, Y) of
                     Inl r \<Rightarrow>
                       Inl (fst r, self2\<lparr>user_factors := Some (fst (snd r)),
                                          item_factors := Some (snd (snd r))\<rparr>)
                   | Inr s \<Rightarrow>
                       Inr (self2\<lparr>user_factors := Some (fst (snd s)),
                                  item_factors := Some (snd (snd s))\<rparr>)))))"

section \<open>Vocabulary of the statements\<close>

subsection \<open>The values one body reads and writes\<close>

text \<open>
  The right-hand sides of the five assignments of the kernel, as functions of the values
  they read: \<open>x\<close> is \<^verbatim>\<open>user[j]\<close>, \<open>t\<close> is \<^verbatim>\<open>temp\<close>, \<open>y\<close> and \<open>b\<close> are the item cell
  assigned to.
\<close>

definition new_user :: "real \<Rightarrow> real \<Rightarrow> real \<Rightarrow> real \<Rightarrow> real \<Rightarrow> real \<Rightarrow> real" where
  "new_user lr reg z x yl yd = x + lr * (z * (yl - yd) - reg * x)"

definition new_liked :: "real \<Rightarrow> real \<Rightarrow> real \<Rightarrow> real \<Rightarrow> real \<Rightarrow> real" where
  "new_liked lr reg z t y = y + lr * (z * t - reg * y)"

definition new_disliked :: "real \<Rightarrow> real \<Rightarrow> real \<Rightarrow> real \<Rightarrow> real \<Rightarrow> real" where
  "new_disliked lr reg z t y = y + lr * (- z * t - reg * y)"

definition new_liked_bias :: "real \<Rightarrow> real \<Rightarrow> real \<Rightarrow> real \<Rightarrow> real" where
  "new_liked_bias lr reg z b = b + lr * (z - reg * b)"

definition new_disliked_bias :: "real \<Rightarrow> real \<Rightarrow> real \<Rightarrow> real \<Rightarrow> real" where
  "new_disliked_bias lr reg z b = b + lr * (- z - reg * b)"

text \<open>
  The two sample positions thread \<open>t\<close> draws in state \<open>st\<close>, and its generator after
  both draws (lines 187 and 188).
\<close>

definition liked_index ::
  "(int \<times> int \<Rightarrow> 'g \<Rightarrow> nat \<times> 'g) \<Rightarrow> (int \<times> int) list \<Rightarrow> nat \<Rightarrow> 'g kernel_state \<Rightarrow> nat"
where
  "liked_index draw dists t st = fst (draw (dists ! t) (st_rng st ! t))"

definition disliked_index ::
  "(int \<times> int \<Rightarrow> 'g \<Rightarrow> nat \<times> 'g) \<Rightarrow> (int \<times> int) list \<Rightarrow> nat \<Rightarrow> 'g kernel_state \<Rightarrow> nat"
where
  "disliked_index draw dists t st =
     fst (draw (dists ! t) (snd (draw (dists ! t) (st_rng st ! t))))"

definition drawn_twice ::
  "(int \<times> int \<Rightarrow> 'g \<Rightarrow> nat \<times> 'g) \<Rightarrow> (int \<times> int) list \<Rightarrow> nat \<Rightarrow> 'g kernel_state \<Rightarrow> 'g"
where
  "drawn_twice draw dists t st =
     snd (draw (dists ! t) (snd (draw (dists ! t) (st_rng st ! t))))"

text \<open>The value the kernel assigns to \<^verbatim>\<open>z\<close> for a score (line 200).\<close>

definition z_of :: "real \<Rightarrow> real" where
  "z_of score = to_float (1 / (1 + exp score))"

text \<open>
  The score in the words of the specification: the dot product of row \<open>u\<close> of \<open>X\<close> with
  the difference of rows \<open>l\<close> and \<open>d\<close> of \<open>Y\<close>, over all columns of \<open>X\<close>.
\<close>

definition dot_score :: "ndarray \<Rightarrow> ndarray \<Rightarrow> nat \<Rightarrow> nat \<Rightarrow> nat \<Rightarrow> real" where
  "dot_score X Y u l d = (\<Sum>j<shape1 X. cell X u j * (cell Y l j - cell Y d j))"

text \<open>All accesses of one body stay inside the vectors and arrays.\<close>

definition in_bounds ::
  "(int \<times> int \<Rightarrow> 'g \<Rightarrow> nat \<times> 'g) \<Rightarrow> (int \<times> int) list \<Rightarrow> nat list \<Rightarrow> nat list \<Rightarrow> nat \<Rightarrow> 'g kernel_state \<Rightarrow> bool"
where
  "in_bounds draw dists userids itemids t st \<longleftrightarrow>
     t < length (st_rng st) \<and> t < length dists
     \<and> liked_index draw dists t st < length itemids
     \<and> disliked_index draw dists t st < length itemids
     \<and> liked_index draw dists t st < length userids
     \<and> userids ! liked_index draw dists t st < shape0 (st_X st)
     \<and> itemids ! liked_index draw dists t st < shape0 (st_Y st)
     \<and> itemids ! disliked_index draw dists t st < shape0 (st_Y st)
     \<and> 0 < shape1 (st_X st) \<and> shape1 (st_X st) \<le> shape1 (st_Y st)"


text \<open>
  What makes every body of a call stay in bounds: one generator per distribution, a
  sampler that answers with a position of the interaction index for every distribution
  of the call, two index sequences of the same length whose entries are rows of the
  arrays, and item rows at least as long as the non-empty user rows.
\<close>

definition kernel_ok ::
  "(int \<times> int \<Rightarrow> 'g \<Rightarrow> nat \<times> 'g) \<Rightarrow> (int \<times> int) list \<Rightarrow> nat list \<Rightarrow> nat list \<Rightarrow> 'g kernel_state \<Rightarrow> bool"
where
  "kernel_ok draw dists userids itemids st \<longleftrightarrow>
     length (st_rng st) = length dists
     \<and> (\<forall>b\<in>set dists. \<forall>g. fst (draw b g) < length itemids)
     \<and> length userids = length itemids
     \<and> (\<forall>u\<in>set userids. u < shape0 (st_X st))
     \<and> (\<forall>v\<in>set itemids. v < shape0 (st_Y st))
     \<and> 0 < shape1 (st_X st) \<and> shape1 (st_X st) \<le> shape1 (st_Y st)"

subsection \<open>The draws of a call of the kernel\<close>

text \<open>
  The generator a thread is left with after one body: two draws from the distribution
  with bounds \<open>b\<close>. The number of bodies thread \<open>t\<close> runs among the first \<open>n\<close> of a
  schedule. The state in which the body with loop index \<open>k\<close> of a call of the kernel
  starts: the state the bodies with a smaller index leave when they run in the order of
  their indices.
\<close>

definition two_draws :: "(int \<times> int \<Rightarrow> 'g \<Rightarrow> nat \<times> 'g) \<Rightarrow> int \<times> int \<Rightarrow> 'g \<Rightarrow> 'g" where
  "two_draws draw b g = snd (draw b (snd (draw b g)))"

definition bodies_of :: "(nat \<Rightarrow> nat) \<Rightarrow> nat \<Rightarrow> nat \<Rightarrow> nat" where
  "bodies_of sched n t = length (filter (\<lambda>k. sched k = t) [0..<n])"

definition body_start ::
  "(int \<times> int \<Rightarrow> 'g \<Rightarrow> nat \<times> 'g) \<Rightarrow> (nat \<Rightarrow> nat) \<Rightarrow> 'g list \<Rightarrow> (int \<times> int) list \<Rightarrow> nat list \<Rightarrow> nat list
     \<Rightarrow> ndarray \<Rightarrow> ndarray \<Rightarrow> real \<Rightarrow> real \<Rightarrow> nat \<Rightarrow> error + 'g kernel_state"
where
  "body_start draw sched rng dists userids itemids X Y lr reg k =
     bpr_loop draw dists userids itemids lr reg (map (\<lambda>i. (i, sched i)) [0..<k])
       \<lparr>st_rng = rng, st_X = X, st_Y = Y, st_correct = 0\<rparr>"

text \<open>
  What one body run by thread \<open>t\<close>, whose distribution has the bounds \<open>b\<close>, makes of the
  state \<open>s\<close>: the two positions come from two successive draws on the generator of
  thread \<open>t\<close>, which is left advanced by both; the user and the liked item are those of
  the first position and the disliked item is that of the second; no other row of
  either array changes; the learned columns of the user's row are assigned from these
  three rows; and when both positions name the same item, \<open>z\<close> is \<open>1 / 2\<close>, nothing is
  counted, and the row of that item is assigned twice, the second time from the result
  of the first.
\<close>

definition body_draws ::
  "(int \<times> int \<Rightarrow> 'g \<Rightarrow> nat \<times> 'g) \<Rightarrow> int \<times> int \<Rightarrow> nat list \<Rightarrow> nat list \<Rightarrow> real \<Rightarrow> real
     \<Rightarrow> nat \<Rightarrow> 'g kernel_state \<Rightarrow> 'g kernel_state \<Rightarrow> bool"
where
  "body_draws draw b userids itemids lr reg t s s' \<longleftrightarrow>
     (let r1 = draw b (st_rng s ! t);
          r2 = draw b (snd r1);
          p_liked = fst r1; p_disliked = fst r2;
          u = userids ! p_liked;
          liked = itemids ! p_liked;
          disliked = itemids ! p_disliked;
          X = st_X s; Y = st_Y s; X' = st_X s'; Y' = st_Y s';
          K = shape1 X - 1;
          z = to_float (1 / (1 + exp (dot_score X Y u liked disliked)))
      in st_rng s' = (st_rng s)[t := snd r2]
         \<and> (\<forall>a j. a \<noteq> u \<longrightarrow> cell X' a j = cell X a j)
         \<and> (\<forall>a j. a \<noteq> liked \<and> a \<noteq> disliked \<longrightarrow> cell Y' a j = cell Y a j)
         \<and> (\<forall>j<K. cell X' u j =
                cell X u j + lr * (z * (cell Y liked j - cell Y disliked j) - reg * cell X u j))
         \<and> st_correct s' = (if z < 1 / 2 then st_correct s + 1 else st_correct s)
         \<and> (liked = disliked \<longrightarrow>
              z = 1 / 2 \<and> st_correct s' = st_correct s
              \<and> (\<forall>j<K. let y = cell Y liked j + lr * (z * cell X u j - reg * cell Y liked j)
                       in cell Y' liked j = y + lr * (- z * cell X u j - reg * y))
              \<and> (let y = cell Y liked K + lr * (z - reg * cell Y liked K)
                  in cell Y' liked K = y + lr * (- z - reg * y))))"

subsection \<open>A call of \<^verbatim>\<open>fit\<close> on the host\<close>

text \<open>
  The number of threads \<^verbatim>\<open>fit\<close> uses (lines 129 to 131), and the epochs of lines 133
  to 146 started on the arrays \<open>X\<close> and \<open>Y\<close>: one generator per thread, seeded from
  \<^verbatim>\<open>np.random.randint\<close>, and one distribution per thread over the positions \<open>0\<close> to
  \<open>N - 1\<close> of the interaction index.
\<close>

definition nthreads_of :: "'g env \<Rightarrow> bpr \<Rightarrow> nat" where
  "nthreads_of E self = (if num_threads self = 0 then cpu_count E else num_threads self)"

definition train_cpu ::
  "'g env \<Rightarrow> bpr \<Rightarrow> coo_matrix \<Rightarrow> ndarray \<Rightarrow> ndarray
     \<Rightarrow> (error \<times> ndarray \<times> ndarray) + ('g list \<times> ndarray \<times> ndarray)"
where
  "train_cpu E self Ciu X Y =
     fit_epochs E Ciu (learning_rate self) (regularization self) (nthreads_of E self)
       (replicate (nthreads_of E self) (0, int (length (row Ciu)) - 1))
       [0..<iterations self]
       (map (\<lambda>i. mt19937 E (randint E i)) [0..<nthreads_of E self], X, Y)"

text \<open>
  The matrix \<^verbatim>\<open>fit\<close> works on after lines 93 to 102: the input itself when its
  element type is single precision, and what \<^verbatim>\<open>astype\<close> returns otherwise. Lines 104
  to 146 for that matrix, with the epochs on the host written as \<open>train_cpu\<close>.
\<close>

definition as_float32 :: "'g env \<Rightarrow> coo_matrix \<Rightarrow> coo_matrix" where
  "as_float32 E Ciu = (if dtype Ciu \<noteq> Float32 then astype E Ciu Float32 else Ciu)"

definition fit_on :: "'g env \<Rightarrow> bpr \<Rightarrow> coo_matrix \<Rightarrow> (error \<times> bpr) + bpr" where
  "fit_on E self Ciu =
     (case init_item_factors E self Ciu (fst (shape Ciu)) of
        Inl r \<Rightarrow> Inl r
      | Inr Y \<Rightarrow>
         (case init_user_factors E (self\<lparr>item_factors := Some Y\<rparr>) Ciu (snd (shape Ciu)) of
            Inl r \<Rightarrow> Inl r
          | Inr X \<Rightarrow>
             (if use_gpu self
              then fit_gpu E (self\<lparr>item_factors := Some Y, user_factors := Some X\<rparr>) Ciu X Y
              else
                (case train_cpu E self Ciu X Y of
                   Inl r \<Rightarrow> Inl (fst r, self\<lparr>item_factors := Some (snd (snd r)),
                                             user_factors := Some (fst (snd r))\<rparr>)
                 | Inr s \<Rightarrow> Inr (self\<lparr>item_factors := Some (snd (snd s)),
                                       user_factors := Some (fst (snd s))\<rparr>)))))"

text \<open>
  What makes the epochs on \<open>X\<close> and \<open>Y\<close> run through: a non-empty interaction index
  with as many user numbers as item numbers, a sampler that keeps to the bounds of the
  distribution, thread numbers below the number of threads, every stored user and item
  number a row of \<open>X\<close> and of \<open>Y\<close>, and item rows at least as long as the non-empty
  user rows. The shape of the input matrix is not part of it.
\<close>

definition call_ok :: "'g env \<Rightarrow> bpr \<Rightarrow> coo_matrix \<Rightarrow> ndarray \<Rightarrow> ndarray \<Rightarrow> bool" where
  "call_ok E self Ciu X Y \<longleftrightarrow>
     row Ciu \<noteq> [] \<and> length (col Ciu) = length (row Ciu)
     \<and> (\<forall>g. fst (uniform_int E (0, int (length (row Ciu)) - 1) g) < length (row Ciu))
     \<and> (\<forall>epoch k. omp_thread E epoch k < nthreads_of E self)
     \<and> (\<forall>u\<in>set (col Ciu). u < shape0 X)
     \<and> (\<forall>v\<in>set (row Ciu). v < shape0 Y)
     \<and> 0 < shape1 X \<and> shape1 X \<le> shape1 Y"

subsection \<open>Epochs that accumulate\<close>

text \<open>
  In the words of the specification: the epochs accumulate their updates. One pass of
  the kernel, as epoch \<open>e\<close> makes it, over the generators and arrays \<open>s\<close>, with one
  distribution per thread over the positions of the interaction index, followed by the
  division of line 146. No epoch leaves \<open>s\<close> as it is, and \<open>n + 1\<close> epochs are one more
  pass over what \<open>n\<close> epochs have left.
\<close>

definition epoch_pass ::
  "'g env \<Rightarrow> coo_matrix \<Rightarrow> real \<Rightarrow> real \<Rightarrow> nat \<Rightarrow> nat \<Rightarrow> 'g list \<times> ndarray \<times> ndarray
     \<Rightarrow> (error \<times> ndarray \<times> ndarray) + ('g list \<times> ndarray \<times> ndarray)"
where
  "epoch_pass E Ciu lr reg nt e s =
     (case bpr_update (uniform_int E) (omp_thread E e) (fst s)
             (replicate nt (0, int (length (row Ciu)) - 1)) (col Ciu) (row Ciu)
             (fst (snd s)) (snd (snd s)) lr reg nt of
        Inl err \<Rightarrow> Inl (err, snd s)
      | Inr st \<Rightarrow>
          if row Ciu = [] then Inl (ZeroDivisionError, st_X st, st_Y st)
          else Inr (st_rng st, st_X st, st_Y st))"

fun accumulated ::
  "'g env \<Rightarrow> coo_matrix \<Rightarrow> real \<Rightarrow> real \<Rightarrow> nat \<Rightarrow> nat \<Rightarrow> 'g list \<times> ndarray \<times> ndarray
     \<Rightarrow> (error \<times> ndarray \<times> ndarray) + ('g list \<times> ndarray \<times> ndarray)"
where
  "accumulated E Ciu lr reg nt 0 s = Inr s"
| "accumulated E Ciu lr reg nt (Suc n) s =
     (case accumulated E Ciu lr reg nt n s of
        Inl r \<Rightarrow> Inl r
      | Inr s' \<Rightarrow> epoch_pass E Ciu lr reg nt n s')"

subsection \<open>The positions of a matrix that hold a value other than zero\<close>



section \<open>Concrete inputs\<close>

text \<open>
  A sampler over a counter: the position is the counter reduced into the bounds of the
  distribution, and the counter moves on by one.
\<close>

definition counter_draw :: "int \<times> int \<Rightarrow> nat \<Rightarrow> nat \<times> nat" where
  "counter_draw b g = (nat (fst b + int g mod (snd b - fst b + 1)), g + 1)"

text \<open>Two users and two items with one learned column and the bias column.\<close>

definition ex_X :: ndarray where
  "ex_X = \<lparr>shape0 = 2, shape1 = 2, cell = (\<lambda>i j. 1)\<rparr>"

definition ex_Y :: ndarray where
  "ex_Y = \<lparr>shape0 = 2, shape1 = 2, cell = (\<lambda>i j. if i = 0 then 1 else 0)\<rparr>"

definition ex_state :: "nat kernel_state" where
  "ex_state = \<lparr>st_rng = [0], st_X = ex_X, st_Y = ex_Y, st_correct = 0\<rparr>"

text \<open>Two schedules for a single thread.\<close>

definition ex_sched :: "nat \<Rightarrow> nat" where
  "ex_sched k = 0"

definition ex_sched' :: "nat \<Rightarrow> nat" where
  "ex_sched' k = k div 5"

text \<open>
  A call of \<^verbatim>\<open>fit\<close>: surroundings without an accelerator and with one core, a new
  model with one learned column, and a two by two matrix with one stored entry, of
  item 1 and user 1, so that item 0 and user 0 have none. The cast of these
  surroundings keeps the stored positions as they are; the matrices cast below store
  one position only.
\<close>

definition ex_env :: "nat env" where
  "ex_env = \<lparr>rand_items = (\<lambda>i j. 1 / 2), rand_users = (\<lambda>i j. 1 / 4), randint = (\<lambda>k. k),
             cpu_count = 1, HAS_CUDA = False, mt19937 = (\<lambda>seed. seed),
             uniform_int = counter_draw, omp_thread = (\<lambda>epoch k. 0),
             cu_bpr_update = (\<lambda>Ciu X Y lr reg seed. (0, X, Y)),
             astype_entries = (\<lambda>m t. (row m, col m, data m))\<rparr>"

definition ex_bpr :: bpr where
  "ex_bpr = \<lparr>factors = 1, learning_rate = 1 / 10, iterations = 2, regularization = 1 / 100,
             use_gpu = False, num_threads = 0, item_factors = None, user_factors = None\<rparr>"

definition ex_Ciu :: coo_matrix where
  "ex_Ciu = \<lparr>shape = (2, 2), row = [1], col = [1], data = [3], dtype = Float64\<rparr>"


text \<open>
  A model that holds arrays of three rows from an earlier call, with neither a zero row
  nor a bias column of ones.
\<close>

definition ex_X3 :: ndarray where
  "ex_X3 = \<lparr>shape0 = 3, shape1 = 2, cell = (\<lambda>i j. 5)\<rparr>"

definition ex_Y3 :: ndarray where
  "ex_Y3 = \<lparr>shape0 = 3, shape1 = 2, cell = (\<lambda>i j. 7)\<rparr>"

definition ex_kept :: bpr where
  "ex_kept = ex_bpr\<lparr>item_factors := Some ex_Y3, user_factors := Some ex_X3\<rparr>"


text \<open>
  A matrix whose only stored entry is of item 0 and user 0: the item and the user with
  the highest number have no stored entry.
\<close>

definition ex_last_empty :: coo_matrix where
  "ex_last_empty = \<lparr>shape = (2, 2), row = [0], col = [0], data = [1], dtype = Float32\<rparr>"




text \<open>A matrix of the same shape without stored entries.\<close>

definition ex_empty :: coo_matrix where
  "ex_empty = \<lparr>shape = (2, 2), row = [], col = [], data = [], dtype = Float32\<rparr>"

text \<open>
  A sampler that reads the positions from a script, and a call of the kernel on one
  user and two items in which the first body computes the score \<open>1 / 2 ^ 27\<close> and the
  second body draws item 0 twice.
\<close>

definition script_draw :: "int \<times> int \<Rightarrow> nat list \<Rightarrow> nat \<times> nat list" where
  "script_draw b g = (case g of [] \<Rightarrow> (0, []) | p # ps \<Rightarrow> (p, ps))"





text \<open>
  A call of \<^verbatim>\<open>fit\<close> with two threads that take the bodies in turn and a sampler that
  reads scripts: thread 0 draws the positions 0 and 1, thread 1 draws position 1 twice.
  The matrix stores two entries, and the model holds arrays from an earlier call and
  asks for one epoch.
\<close>

definition ex_env2 :: "nat list env" where
  "ex_env2 = \<lparr>rand_items = (\<lambda>i j. 1 / 2), rand_users = (\<lambda>i j. 1 / 4), randint = (\<lambda>k. k),
              cpu_count = 2, HAS_CUDA = False,
              mt19937 = (\<lambda>seed. if seed = 0 then [0, 1] else [1, 1]),
              uniform_int = script_draw, omp_thread = (\<lambda>epoch k. k mod 2),
              cu_bpr_update = (\<lambda>Ciu X Y lr reg seed. (0, X, Y)),
              astype_entries = (\<lambda>m t. (row m, col m, data m))\<rparr>"

definition ex_two :: coo_matrix where
  "ex_two = \<lparr>shape = (2, 2), row = [0, 1], col = [0, 1], data = [1, 1], dtype = Float32\<rparr>"

definition ex_kept2 :: bpr where
  "ex_kept2 = \<lparr>factors = 1, learning_rate = 1 / 10, iterations = 1, regularization = 1 / 100,
               use_gpu = False, num_threads = 0, item_factors = Some ex_Y, user_factors = Some ex_X\<rparr>"


section \<open>Properties\<close>

subsection \<open>Conversion to single precision\<close>

lemma round_even_of_int: "round_even (of_int n) = n"
  by (simp add: round_even_def)



lemma round_even_up:
  assumes "of_int m - 1 / 2 \<le> r" and "r \<le> of_int m" and "even m"
  shows "round_even r = m"
proof (cases "r = of_int m")
  case True
  then show ?thesis by (simp add: round_even_of_int)
next
  case False
  then have lt: "r < of_int m" using assms(2) by simp
  have "of_int (m - 1) \<le> r" using assms(1) by simp
  then have "m - 1 \<le> \<lfloor>r\<rfloor>" by (simp only: le_floor_iff)
  moreover have "\<lfloor>r\<rfloor> < m" using lt by (simp add: floor_less_iff)
  ultimately have f: "\<lfloor>r\<rfloor> = m - 1" by simp
  have odd: "odd (m - 1)" using assms(3) by simp
  have "1 / 2 \<le> r - of_int (m - 1)" using assms(1) by simp
  then show ?thesis
    using odd by (auto simp: round_even_def Let_def f)
qed



lemma floor_log2_eq:
  assumes "2 powr of_int k \<le> x" and "x < 2 powr (of_int k + 1)"
  shows "\<lfloor>log 2 x\<rfloor> = k"
proof -
  have pos: "0 < x" using assms(1) powr_gt_zero [of 2 "of_int k"] by linarith
  have "2 powr of_int k \<le> x \<longleftrightarrow> of_int k \<le> log 2 x"
    by (rule powr_le_iff) (use pos in simp_all)
  then have "of_int k \<le> log 2 x" using assms(1) by blast
  moreover have "x < 2 powr (of_int k + 1) \<longleftrightarrow> log 2 x < of_int k + 1"
    by (rule less_powr_iff) (use pos in simp_all)
  then have "log 2 x < of_int k + 1" using assms(2) by blast
  ultimately show ?thesis by linarith
qed

lemma to_float_pos:
  assumes "0 < x" and "\<lfloor>log 2 x\<rfloor> = e" and "- 126 \<le> e"
  shows "to_float x = of_int (round_even (x / 2 powr (of_int e - 23))) * 2 powr (of_int e - 23)"
proof -
  have "x \<noteq> 0" "\<bar>x\<bar> = x" using assms(1) by simp_all
  moreover have "max e (- 126) = e" using assms(3) by simp
  ultimately show ?thesis
    unfolding to_float_def Let_def assms(2) [symmetric] using assms(2) by simp
qed

lemma to_float_half_interval:
  assumes "1 / 2 - 1 / 2 ^ 26 \<le> x" and "x \<le> 1 / 2"
  shows "to_float x = 1 / 2"
proof (cases "x = 1 / 2")
  case True
  have p: "(2::real) powr (- 1) = 1 / 2" by (simp add: powr_minus_divide)
  have e: "\<lfloor>log 2 (1 / 2 :: real)\<rfloor> = - 1"
    by (rule floor_log2_eq) (simp_all add: p)
  have ulp: "(2::real) powr (of_int (- 1) - 23) = 1 / 2 ^ 24"
    by (simp add: powr_minus_divide)
  have q: "(1 / 2) / (1 / 2 ^ 24) = (of_int (2 ^ 23) :: real)"
    by simp
  have "to_float (1 / 2) = of_int (round_even ((1 / 2) / (1 / 2 ^ 24))) * (1 / 2 ^ 24)"
    using to_float_pos [OF _ e] unfolding ulp by simp
  also have "\<dots> = of_int (2 ^ 23) * (1 / 2 ^ 24)"
    unfolding q round_even_of_int ..
  also have "\<dots> = 1 / 2" by simp
  finally show ?thesis unfolding True .
next
  case False
  then have lt: "x < 1 / 2" using assms(2) by simp
  have ge: "1 / 4 \<le> x" using assms(1) by simp
  have p: "(2::real) powr (- 2) = 1 / 4" "(2::real) powr (- 1) = 1 / 2"
    by (simp_all add: powr_minus_divide)
  have e: "\<lfloor>log 2 x\<rfloor> = - 2"
    by (rule floor_log2_eq) (use ge lt in \<open>simp_all add: p\<close>)
  have ulp: "(2::real) powr (of_int (- 2) - 23) = 1 / 2 ^ 25"
    by (simp add: powr_minus_divide)
  have r: "round_even (x / (1 / 2 ^ 25)) = 2 ^ 24"
    by (rule round_even_up) (use assms lt in \<open>simp_all add: field_simps\<close>)
  have "0 < x" using ge by simp
  from to_float_pos [OF this e] have "to_float x = of_int (round_even (x / (1 / 2 ^ 25))) * (1 / 2 ^ 25)"
    unfolding ulp by simp
  also have "\<dots> = of_int (2 ^ 24) * (1 / 2 ^ 25)" unfolding r ..
  also have "\<dots> = 1 / 2" by simp
  finally show ?thesis .
qed






lemma z_of_zero: "z_of 0 = 1 / 2"
  unfolding z_of_def by (simp add: to_float_half_interval)




subsection \<open>The kernel, cell by cell\<close>

lemma score_loop_sum:
  "score_loop X Y u l d n = (\<Sum>j<n. cell X u j * (cell Y l j - cell Y d j))"
  unfolding score_loop_def by (induction n) simp_all

lemma put_simps [simp]:
  "shape0 (put M i j v) = shape0 M"
  "shape1 (put M i j v) = shape1 M"
  "cell (put M i j v) a b = (if a = i \<and> b = j then v else cell M a b)"
  by (simp_all add: put_def)

lemma sgd_column_simps:
  "shape0 (fst (sgd_column lr reg z u l d XY j)) = shape0 (fst XY)"
  "shape1 (fst (sgd_column lr reg z u l d XY j)) = shape1 (fst XY)"
  "shape0 (snd (sgd_column lr reg z u l d XY j)) = shape0 (snd XY)"
  "shape1 (snd (sgd_column lr reg z u l d XY j)) = shape1 (snd XY)"
  "cell (fst (sgd_column lr reg z u l d XY j)) a b =
     (if a = u \<and> b = j
      then new_user lr reg z (cell (fst XY) u j) (cell (snd XY) l j) (cell (snd XY) d j)
      else cell (fst XY) a b)"
  "cell (snd (sgd_column lr reg z u l d XY j)) a b =
     (if a = d \<and> b = j
      then new_disliked lr reg z (cell (fst XY) u j)
             (if l = d then new_liked lr reg z (cell (fst XY) u j) (cell (snd XY) l j)
              else cell (snd XY) d j)
      else if a = l \<and> b = j then new_liked lr reg z (cell (fst XY) u j) (cell (snd XY) l j)
      else cell (snd XY) a b)"
  by (simp_all add: sgd_column_def Let_def new_user_def new_liked_def new_disliked_def)

lemma sgd_columns_shape:
  "shape0 (fst (foldl (sgd_column lr reg z u l d) XY [0..<n])) = shape0 (fst XY)"
  "shape1 (fst (foldl (sgd_column lr reg z u l d) XY [0..<n])) = shape1 (fst XY)"
  "shape0 (snd (foldl (sgd_column lr reg z u l d) XY [0..<n])) = shape0 (snd XY)"
  "shape1 (snd (foldl (sgd_column lr reg z u l d) XY [0..<n])) = shape1 (snd XY)"
  by (induction n; simp add: sgd_column_simps)+

lemma sgd_columns_cells:
  "cell (fst (foldl (sgd_column lr reg z u l d) XY [0..<n])) a b =
     (if a = u \<and> b < n
      then new_user lr reg z (cell (fst XY) u b) (cell (snd XY) l b) (cell (snd XY) d b)
      else cell (fst XY) a b)"
  "cell (snd (foldl (sgd_column lr reg z u l d) XY [0..<n])) a b =
     (if a = d \<and> b < n
      then new_disliked lr reg z (cell (fst XY) u b)
             (if l = d then new_liked lr reg z (cell (fst XY) u b) (cell (snd XY) l b)
              else cell (snd XY) d b)
      else if a = l \<and> b < n then new_liked lr reg z (cell (fst XY) u b) (cell (snd XY) l b)
      else cell (snd XY) a b)"
proof (induction n arbitrary: a b)
  case 0
  {
    case 1 show ?case by simp
  next
    case 2 show ?case by simp
  }
next
  case (Suc n)
  define G where "G = foldl (sgd_column lr reg z u l d) XY [0..<n]"
  have col_n: "cell (fst G) r n = cell (fst XY) r n" "cell (snd G) r n = cell (snd XY) r n" for r
    unfolding G_def by (simp_all add: Suc.IH)
  have step: "foldl (sgd_column lr reg z u l d) XY [0..<Suc n] = sgd_column lr reg z u l d G n"
    unfolding G_def by simp
  {
    case 1
    show ?case
    proof (cases "b = n")
      case True
      then show ?thesis unfolding step by (simp add: sgd_column_simps col_n)
    next
      case False
      then have "cell (fst (sgd_column lr reg z u l d G n)) a b = cell (fst G) a b"
        by (simp add: sgd_column_simps)
      with False show ?thesis unfolding step by (auto simp: G_def Suc.IH(1) less_Suc_eq)
    qed
  next
    case 2
    show ?case
    proof (cases "b = n")
      case True
      then show ?thesis unfolding step by (simp add: sgd_column_simps col_n)
    next
      case False
      then have "cell (snd (sgd_column lr reg z u l d G n)) a b = cell (snd G) a b"
        by (simp add: sgd_column_simps)
      with False show ?thesis unfolding step by (auto simp: G_def Suc.IH(2) less_Suc_eq)
    qed
  }
qed

lemma sgd_bias_simps:
  "shape0 (sgd_bias lr reg z l d k Y) = shape0 Y"
  "shape1 (sgd_bias lr reg z l d k Y) = shape1 Y"
  "cell (sgd_bias lr reg z l d k Y) a b =
     (if a = d \<and> b = k
      then new_disliked_bias lr reg z
             (if l = d then new_liked_bias lr reg z (cell Y l k) else cell Y d k)
      else if a = l \<and> b = k then new_liked_bias lr reg z (cell Y l k)
      else cell Y a b)"
  by (simp_all add: sgd_bias_def Let_def new_liked_bias_def new_disliked_bias_def)

lemma bpr_sample_out_of_bounds:
  "\<not> in_bounds draw dists userids itemids t st \<Longrightarrow>
     bpr_sample draw dists userids itemids lr reg i t st = Inl OutOfBounds"
  unfolding bpr_sample_def in_bounds_def liked_index_def disliked_index_def
  by (simp add: Let_def)

lemma bpr_sample_in_bounds:
  assumes "in_bounds draw dists userids itemids t st"
  shows "bpr_sample draw dists userids itemids lr reg i t st =
     Inr (let u = userids ! liked_index draw dists t st;
            l = itemids ! liked_index draw dists t st;
            d = itemids ! disliked_index draw dists t st;
            X = st_X st; Y = st_Y st; k = shape1 X - 1;
            z = z_of (dot_score X Y u l d);
            XY = foldl (sgd_column lr reg z u l d) (X, Y) [0..<k]
        in \<lparr>st_rng = (st_rng st)[t := drawn_twice draw dists t st],
            st_X = fst XY,
            st_Y = sgd_bias lr reg z l d k (snd XY),
            st_correct = (if z_of (dot_score X Y u l d) < 1 / 2 then st_correct st + 1 else st_correct st)\<rparr>)"
proof -
  have score: "score_loop X Y u l d (shape1 (st_X st) - 1 + 1) = (\<Sum>j<shape1 (st_X st). cell X u j * (cell Y l j - cell Y d j))"
    for X Y u l d
    using assms by (simp add: in_bounds_def score_loop_sum)
  have "bpr_sample draw dists userids itemids lr reg i t st =
     Inr (let u = userids ! fst (draw (dists ! t) (st_rng st ! t));
            l = itemids ! fst (draw (dists ! t) (st_rng st ! t));
            d = itemids ! fst (draw (dists ! t) (snd (draw (dists ! t) (st_rng st ! t))));
            X = st_X st; Y = st_Y st; k = shape1 X - 1;
            s = (\<Sum>j<shape1 (st_X st). cell X u j * (cell Y l j - cell Y d j));
            z = to_float (1 / (1 + exp s));
            XY = foldl (sgd_column lr reg z u l d) (X, Y) [0..<k]
        in \<lparr>st_rng = (st_rng st)[t := snd (draw (dists ! t) (snd (draw (dists ! t) (st_rng st ! t))))],
            st_X = fst XY,
            st_Y = sgd_bias lr reg z l d k (snd XY),
            st_correct = (if z < 1 / 2 then st_correct st + 1 else st_correct st)\<rparr>)"
    using assms
    unfolding bpr_sample_def in_bounds_def liked_index_def disliked_index_def Let_def score
    by simp
  then show ?thesis
    unfolding liked_index_def disliked_index_def drawn_twice_def dot_score_def z_of_def Let_def
    by simp
qed

lemma bpr_sample_Inr_iff:
  "bpr_sample draw dists userids itemids lr reg i t st = Inr st' \<longleftrightarrow>
     in_bounds draw dists userids itemids t st \<and>
     st' = (let u = userids ! liked_index draw dists t st;
            l = itemids ! liked_index draw dists t st;
            d = itemids ! disliked_index draw dists t st;
            X = st_X st; Y = st_Y st; k = shape1 X - 1;
            z = z_of (dot_score X Y u l d);
            XY = foldl (sgd_column lr reg z u l d) (X, Y) [0..<k]
        in \<lparr>st_rng = (st_rng st)[t := drawn_twice draw dists t st],
            st_X = fst XY,
            st_Y = sgd_bias lr reg z l d k (snd XY),
            st_correct = (if z_of (dot_score X Y u l d) < 1 / 2 then st_correct st + 1 else st_correct st)\<rparr>)"
proof (cases "in_bounds draw dists userids itemids t st")
  case True
  show ?thesis
    unfolding bpr_sample_in_bounds [OF True] using True by auto
next
  case False
  then show ?thesis by (simp add: bpr_sample_out_of_bounds)
qed

lemma bpr_sample_InrD:
  assumes "bpr_sample draw dists userids itemids lr reg i t st = Inr st'"
  shows "in_bounds draw dists userids itemids t st"
    and "st_rng st' = (st_rng st)[t := drawn_twice draw dists t st]"
    and "st_X st' =
           fst (foldl (sgd_column lr reg
                  (z_of (dot_score (st_X st) (st_Y st)
                      (userids ! liked_index draw dists t st)
                      (itemids ! liked_index draw dists t st)
                      (itemids ! disliked_index draw dists t st)))
                  (userids ! liked_index draw dists t st)
                  (itemids ! liked_index draw dists t st)
                  (itemids ! disliked_index draw dists t st))
                (st_X st, st_Y st) [0..<shape1 (st_X st) - 1])"
    and "st_Y st' =
           sgd_bias lr reg
             (z_of (dot_score (st_X st) (st_Y st)
                      (userids ! liked_index draw dists t st)
                      (itemids ! liked_index draw dists t st)
                      (itemids ! disliked_index draw dists t st)))
             (itemids ! liked_index draw dists t st)
             (itemids ! disliked_index draw dists t st)
             (shape1 (st_X st) - 1)
             (snd (foldl (sgd_column lr reg
                  (z_of (dot_score (st_X st) (st_Y st)
                      (userids ! liked_index draw dists t st)
                      (itemids ! liked_index draw dists t st)
                      (itemids ! disliked_index draw dists t st)))
                  (userids ! liked_index draw dists t st)
                  (itemids ! liked_index draw dists t st)
                  (itemids ! disliked_index draw dists t st))
                (st_X st, st_Y st) [0..<shape1 (st_X st) - 1]))"
    and "st_correct st' =
           (if z_of (dot_score (st_X st) (st_Y st)
                      (userids ! liked_index draw dists t st)
                      (itemids ! liked_index draw dists t st)
                      (itemids ! disliked_index draw dists t st)) < 1 / 2
            then st_correct st + 1 else st_correct st)"
  using assms unfolding bpr_sample_Inr_iff Let_def by simp_all

text \<open>What one body leaves of the two arrays, cell by cell.\<close>

lemma bpr_sample_shapes:
  assumes "bpr_sample draw dists userids itemids lr reg i t st = Inr st'"
  shows "shape0 (st_X st') = shape0 (st_X st)" "shape1 (st_X st') = shape1 (st_X st)"
        "shape0 (st_Y st') = shape0 (st_Y st)" "shape1 (st_Y st') = shape1 (st_Y st)"
        "length (st_rng st') = length (st_rng st)"
  using bpr_sample_InrD(2-4) [OF assms]
  by (simp_all add: sgd_columns_shape sgd_bias_simps)

lemma bpr_sample_X_cell:
  assumes "bpr_sample draw dists userids itemids lr reg i t st = Inr st'"
  shows "cell (st_X st') a b =
     (if a = userids ! liked_index draw dists t st \<and> b < shape1 (st_X st) - 1
      then new_user lr reg
             (z_of (dot_score (st_X st) (st_Y st)
                      (userids ! liked_index draw dists t st)
                      (itemids ! liked_index draw dists t st)
                      (itemids ! disliked_index draw dists t st)))
             (cell (st_X st) (userids ! liked_index draw dists t st) b)
             (cell (st_Y st) (itemids ! liked_index draw dists t st) b)
             (cell (st_Y st) (itemids ! disliked_index draw dists t st) b)
      else cell (st_X st) a b)"
  unfolding bpr_sample_InrD(3) [OF assms] by (simp add: sgd_columns_cells)

lemma bpr_sample_Y_cell:
  assumes "bpr_sample draw dists userids itemids lr reg i t st = Inr st'"
  shows "cell (st_Y st') a b =
     (let u = userids ! liked_index draw dists t st;
          l = itemids ! liked_index draw dists t st;
          d = itemids ! disliked_index draw dists t st;
          k = shape1 (st_X st) - 1;
          z = z_of (dot_score (st_X st) (st_Y st) u l d);
          x = cell (st_X st) u b
      in if b < k then
           (if a = d
            then new_disliked lr reg z x
                   (if l = d then new_liked lr reg z x (cell (st_Y st) l b)
                    else cell (st_Y st) d b)
            else if a = l then new_liked lr reg z x (cell (st_Y st) l b)
            else cell (st_Y st) a b)
         else if b = k then
           (if a = d
            then new_disliked_bias lr reg z
                   (if l = d then new_liked_bias lr reg z (cell (st_Y st) l k)
                    else cell (st_Y st) d k)
            else if a = l then new_liked_bias lr reg z (cell (st_Y st) l k)
            else cell (st_Y st) a b)
         else cell (st_Y st) a b)"
  unfolding bpr_sample_InrD(4) [OF assms] Let_def
  by (simp add: sgd_bias_simps sgd_columns_cells)

lemma ex_state_in_bounds: "in_bounds counter_draw [(0, 1)] [0, 1] [0, 1] 0 ex_state"
  by (simp add: in_bounds_def ex_state_def ex_X_def ex_Y_def liked_index_def disliked_index_def
      counter_draw_def)

subsection \<open>The loop over the sample positions\<close>

lemma kernel_ok_in_bounds:
  assumes "kernel_ok draw dists userids itemids st" and "t < length dists"
  shows "in_bounds draw dists userids itemids t st"
proof -
  have b: "dists ! t \<in> set dists" using assms(2) by simp
  have d: "fst (draw (dists ! t) g) < length itemids" for g
    using assms(1) b unfolding kernel_ok_def by blast
  show ?thesis
    using assms d unfolding kernel_ok_def in_bounds_def liked_index_def disliked_index_def
    by simp
qed

lemma kernel_ok_step:
  assumes "kernel_ok draw dists userids itemids st"
    and "bpr_sample draw dists userids itemids lr reg i t st = Inr st'"
  shows "kernel_ok draw dists userids itemids st'"
  using assms(1) unfolding kernel_ok_def
  by (simp add: bpr_sample_shapes [OF assms(2)])

lemma bpr_loop_returns:
  assumes "kernel_ok draw dists userids itemids st"
    and "\<forall>it\<in>set its. snd it < length dists"
  shows "\<exists>st'. bpr_loop draw dists userids itemids lr reg its st = Inr st'"
  using assms
proof (induction its arbitrary: st)
  case Nil
  show ?case by simp
next
  case (Cons it its)
  have "in_bounds draw dists userids itemids (snd it) st"
    using Cons.prems by (simp add: kernel_ok_in_bounds)
  then obtain st1 where st1: "bpr_sample draw dists userids itemids lr reg (fst it) (snd it) st = Inr st1"
    using bpr_sample_in_bounds by blast
  have "kernel_ok draw dists userids itemids st1"
    using Cons.prems(1) st1 by (rule kernel_ok_step)
  then obtain st' where "bpr_loop draw dists userids itemids lr reg its st1 = Inr st'"
    using Cons.IH Cons.prems(2) by auto
  then show ?case by (simp add: st1)
qed

lemma bpr_loop_shapes:
  assumes "bpr_loop draw dists userids itemids lr reg its st = Inr st'"
  shows "shape0 (st_X st') = shape0 (st_X st) \<and> shape1 (st_X st') = shape1 (st_X st)
       \<and> shape0 (st_Y st') = shape0 (st_Y st) \<and> shape1 (st_Y st') = shape1 (st_Y st)
       \<and> length (st_rng st') = length (st_rng st)"
  using assms
proof (induction its arbitrary: st)
  case Nil
  then show ?case by simp
next
  case (Cons it its)
  then obtain st1 where st1: "bpr_sample draw dists userids itemids lr reg (fst it) (snd it) st = Inr st1"
    and rest: "bpr_loop draw dists userids itemids lr reg its st1 = Inr st'"
    by (auto split: sum.splits)
  show ?case
    using Cons.IH [OF rest] bpr_sample_shapes [OF st1] by simp
qed

lemma bpr_loop_kernel_ok:
  assumes "kernel_ok draw dists userids itemids st"
    and "bpr_loop draw dists userids itemids lr reg its st = Inr st'"
  shows "kernel_ok draw dists userids itemids st'"
  using assms(1) bpr_loop_shapes [OF assms(2)] unfolding kernel_ok_def by simp

lemma bpr_sample_bias_column:
  assumes "bpr_sample draw dists userids itemids lr reg i t st = Inr st'"
    and "shape1 (st_X st) - 1 \<le> b"
  shows "cell (st_X st') a b = cell (st_X st) a b"
  using assms(2) by (simp add: bpr_sample_X_cell [OF assms(1)])

lemma bpr_sample_other_user:
  assumes "bpr_sample draw dists userids itemids lr reg i t st = Inr st'"
    and "a \<notin> set userids"
  shows "cell (st_X st') a b = cell (st_X st) a b"
proof -
  have "liked_index draw dists t st < length userids"
    using bpr_sample_InrD(1) [OF assms(1)] by (simp add: in_bounds_def)
  then have "userids ! liked_index draw dists t st \<in> set userids" by simp
  then have "a \<noteq> userids ! liked_index draw dists t st" using assms(2) by auto
  then show ?thesis by (simp add: bpr_sample_X_cell [OF assms(1)])
qed

lemma bpr_sample_other_item:
  assumes "bpr_sample draw dists userids itemids lr reg i t st = Inr st'"
    and "a \<notin> set itemids"
  shows "cell (st_Y st') a b = cell (st_Y st) a b"
proof -
  have "liked_index draw dists t st < length itemids" "disliked_index draw dists t st < length itemids"
    using bpr_sample_InrD(1) [OF assms(1)] by (simp_all add: in_bounds_def)
  then have "itemids ! liked_index draw dists t st \<in> set itemids"
    "itemids ! disliked_index draw dists t st \<in> set itemids" by simp_all
  then have "a \<noteq> itemids ! liked_index draw dists t st" "a \<noteq> itemids ! disliked_index draw dists t st"
    using assms(2) by auto
  then show ?thesis by (simp add: bpr_sample_Y_cell [OF assms(1)] Let_def)
qed

lemma bpr_loop_frame:
  assumes "bpr_loop draw dists userids itemids lr reg its st = Inr st'"
  shows "(shape1 (st_X st) - 1 \<le> b \<longrightarrow> cell (st_X st') a b = cell (st_X st) a b)
       \<and> (a \<notin> set userids \<longrightarrow> cell (st_X st') a b = cell (st_X st) a b)
       \<and> (a \<notin> set itemids \<longrightarrow> cell (st_Y st') a b = cell (st_Y st) a b)"
  using assms
proof (induction its arbitrary: st)
  case Nil
  then show ?case by simp
next
  case (Cons it its)
  then obtain st1 where st1: "bpr_sample draw dists userids itemids lr reg (fst it) (snd it) st = Inr st1"
    and rest: "bpr_loop draw dists userids itemids lr reg its st1 = Inr st'"
    by (auto split: sum.splits)
  show ?case
    using Cons.IH [OF rest] bpr_sample_shapes(2) [OF st1]
      bpr_sample_bias_column [OF st1, of b a]
      bpr_sample_other_user [OF st1, of a b] bpr_sample_other_item [OF st1, of a b]
    by simp
qed


lemma bpr_update_returns:
  assumes "kernel_ok draw dists userids itemids \<lparr>st_rng = rng, st_X = X, st_Y = Y, st_correct = 0\<rparr>"
    and "\<forall>k<length userids. sched k < length dists"
  shows "\<exists>st'. bpr_update draw sched rng dists userids itemids X Y lr reg nt = Inr st'"
  unfolding bpr_update_def Let_def
  by (rule bpr_loop_returns [OF assms(1)]) (use assms(2) in auto)

lemma counter_draw_less:
  assumes "0 < n"
  shows "fst (counter_draw (0, int n - 1) g) < n"
proof -
  have "int g mod int n = int (g mod n)" by (simp add: zmod_int)
  then show ?thesis using assms by (simp add: counter_draw_def)
qed

lemma ex_kernel_ok:
  "kernel_ok counter_draw [(0, 1)] [0, 1] [0, 1] \<lparr>st_rng = [0], st_X = ex_X, st_Y = ex_Y, st_correct = 0\<rparr>"
proof -
  have "fst (counter_draw (0, 1) g) < Suc (Suc 0)" for g
    using counter_draw_less [of 2 g] by simp
  then show ?thesis
    by (simp add: kernel_ok_def ex_X_def ex_Y_def)
qed



subsection \<open>Initialisation and epochs of \<^verbatim>\<open>fit\<close>\<close>

lemma bpr_update_frame:
  assumes "bpr_update draw sched rng dists userids itemids X Y lr reg nt = Inr st'"
  shows "shape0 (st_X st') = shape0 X \<and> shape1 (st_X st') = shape1 X
    \<and> shape0 (st_Y st') = shape0 Y \<and> shape1 (st_Y st') = shape1 Y
    \<and> length (st_rng st') = length rng
    \<and> (shape1 X - 1 \<le> b \<longrightarrow> cell (st_X st') a b = cell X a b)
    \<and> (a \<notin> set userids \<longrightarrow> cell (st_X st') a b = cell X a b)
    \<and> (a \<notin> set itemids \<longrightarrow> cell (st_Y st') a b = cell Y a b)"
proof -
  have loop: "bpr_loop draw dists userids itemids lr reg (map (\<lambda>i. (i, sched i)) [0..<length userids])
                \<lparr>st_rng = rng, st_X = X, st_Y = Y, st_correct = 0\<rparr> = Inr st'"
    using assms by (simp add: bpr_update_def)
  show ?thesis
    using bpr_loop_shapes [OF loop] bpr_loop_frame [OF loop, of b a] by simp
qed


lemma fit_epochs_frame:
  assumes "fit_epochs E Ciu lr reg nt dists es (rng, X, Y) = Inr (rng', X', Y')"
  shows "shape0 X' = shape0 X \<and> shape1 X' = shape1 X \<and> shape0 Y' = shape0 Y \<and> shape1 Y' = shape1 Y
       \<and> (shape1 X - 1 \<le> b \<longrightarrow> cell X' a b = cell X a b)
       \<and> (a \<notin> set (col Ciu) \<longrightarrow> cell X' a b = cell X a b)
       \<and> (a \<notin> set (row Ciu) \<longrightarrow> cell Y' a b = cell Y a b)"
  using assms
proof (induction es arbitrary: rng X Y)
  case Nil
  then show ?case by simp
next
  case (Cons epoch es)
  from Cons.prems obtain st where
    st: "bpr_update (uniform_int E) (omp_thread E epoch) rng dists (col Ciu) (row Ciu) X Y lr reg nt = Inr st"
    and rest: "fit_epochs E Ciu lr reg nt dists es (st_rng st, st_X st, st_Y st) = Inr (rng', X', Y')"
    by (auto split: sum.splits if_splits)
  show ?case
    using Cons.IH [OF rest] bpr_update_frame [OF st, where a = a and b = b] by simp
qed

lemma fit_epochs_returns:
  assumes "kernel_ok (uniform_int E) dists (col Ciu) (row Ciu) \<lparr>st_rng = rng, st_X = X, st_Y = Y, st_correct = 0\<rparr>"
    and "\<forall>epoch k. omp_thread E epoch k < length dists"
    and "row Ciu \<noteq> []"
  shows "\<exists>s. fit_epochs E Ciu lr reg nt dists es (rng, X, Y) = Inr s"
  using assms(1)
proof (induction es arbitrary: rng X Y)
  case Nil
  show ?case by simp
next
  case (Cons epoch es)
  obtain st where st:
    "bpr_update (uniform_int E) (omp_thread E epoch) rng dists (col Ciu) (row Ciu) X Y lr reg nt = Inr st"
    using bpr_update_returns [OF Cons.prems] assms(2) by blast
  then have loop: "bpr_loop (uniform_int E) dists (col Ciu) (row Ciu) lr reg
       (map (\<lambda>i. (i, omp_thread E epoch i)) [0..<length (col Ciu)])
       \<lparr>st_rng = rng, st_X = X, st_Y = Y, st_correct = 0\<rparr> = Inr st"
    by (simp add: bpr_update_def)
  have "kernel_ok (uniform_int E) dists (col Ciu) (row Ciu) st"
    using Cons.prems loop by (rule bpr_loop_kernel_ok)
  then have "kernel_ok (uniform_int E) dists (col Ciu) (row Ciu)
       \<lparr>st_rng = st_rng st, st_X = st_X st, st_Y = st_Y st, st_correct = 0\<rparr>"
    by (simp add: kernel_ok_def)
  from Cons.IH [OF this] show ?case
    using st assms(3) by simp
qed

lemma call_ok_kernel_ok:
  assumes "call_ok E self Ciu X Y"
  shows "kernel_ok (uniform_int E) (replicate (nthreads_of E self) (0, int (length (row Ciu)) - 1))
           (col Ciu) (row Ciu)
           \<lparr>st_rng = map (\<lambda>i. mt19937 E (randint E i)) [0..<nthreads_of E self],
             st_X = X, st_Y = Y, st_correct = 0\<rparr>"
  using assms unfolding call_ok_def kernel_ok_def by simp

lemma train_cpu_returns:
  assumes "call_ok E self Ciu X Y"
  shows "\<exists>s. train_cpu E self Ciu X Y = Inr s"
  unfolding train_cpu_def
  by (rule fit_epochs_returns [OF call_ok_kernel_ok [OF assms]])
     (use assms in \<open>simp_all add: call_ok_def\<close>)

lemma bincount_length: "length (bincount xs) = (if xs = [] then 0 else Max (set xs) + 1)"
  by (simp add: bincount_def)

lemma bincount_nth: "i < length (bincount xs) \<Longrightarrow> bincount xs ! i = count_list xs i"
  by (simp add: bincount_def del: upt_Suc split: if_splits)

lemma zero_count_iff: "i < length (bincount xs) \<Longrightarrow> map (\<lambda>c. c = 0) (bincount xs) ! i \<longleftrightarrow> i \<notin> set xs"
  by (simp add: bincount_nth count_list_0_iff)

lemma setitem_mask_zeros_shape:
  assumes "setitem_mask_zeros a msk = Inr a'"
  shows "shape0 a' = shape0 a" and "shape1 a' = shape1 a"
  using assms by (auto simp: setitem_mask_zeros_def split: if_splits)

lemma setitem_mask_zeros_empty: "setitem_mask_zeros a [] = Inr a"
  by (simp add: setitem_mask_zeros_def)

lemma setitem_mask_zeros_Inr:
  assumes "setitem_mask_zeros a (map (\<lambda>c. c = 0) (bincount xs)) = Inr a'" and "xs \<noteq> []"
  shows "length (bincount xs) = shape0 a
       \<and> cell a' i j = (if i < shape0 a \<and> i \<notin> set xs \<and> j < shape1 a then 0 else cell a i j)"
proof -
  have ne: "map (\<lambda>c. c = 0) (bincount xs) \<noteq> []"
    using assms(2) by (simp add: bincount_def)
  have len: "length (bincount xs) = shape0 a"
    using assms(1) ne by (simp add: setitem_mask_zeros_def split: if_splits)
  have a': "a' = a\<lparr>cell := (\<lambda>i j. if i < length (map (\<lambda>c. c = 0) (bincount xs))
                                   \<and> map (\<lambda>c. c = 0) (bincount xs) ! i \<and> j < shape1 a
                               then 0 else cell a i j)\<rparr>"
    using assms(1) by (simp add: setitem_mask_zeros_def split: if_splits)
  show ?thesis
  proof (cases "i < shape0 a")
    case True
    have "map (\<lambda>c. c = 0) (bincount xs) ! i \<longleftrightarrow> i \<notin> set xs"
      by (rule zero_count_iff) (simp add: len True)
    then show ?thesis using len True unfolding a' by simp
  next
    case False
    then show ?thesis using len by (simp add: a')
  qed
qed

lemma init_item_retained:
  "item_factors self = Some Y \<Longrightarrow> init_item_factors E self Ciu n = Inr Y"
  by (simp add: init_item_factors_def)

lemma init_user_retained:
  "user_factors self = Some X \<Longrightarrow> init_user_factors E self Ciu n = Inr X"
  by (simp add: init_user_factors_def)

lemma init_item_shape:
  assumes "item_factors self = None" and "init_item_factors E self Ciu n = Inr Y"
  shows "shape0 Y = n" and "shape1 Y = factors self + 1"
proof -
  let ?Y0 = "\<lparr>shape0 = n, shape1 = factors self + 1, cell = rand_items E\<rparr>"
  have "setitem_mask_zeros ?Y0 (map (\<lambda>c. c = 0) (bincount (row Ciu))) = Inr Y"
    using assms by (simp add: init_item_factors_def Let_def split: sum.splits)
  from setitem_mask_zeros_shape [OF this] show "shape0 Y = n" and "shape1 Y = factors self + 1"
    by simp_all
qed

lemma init_item_fresh:
  assumes "item_factors self = None" and "init_item_factors E self Ciu n = Inr Y"
    and "row Ciu \<noteq> []"
  shows "length (bincount (row Ciu)) = n
       \<and> cell Y i j = (if i < n \<and> i \<notin> set (row Ciu) \<and> j < factors self + 1 then 0
                       else rand_items E i j)"
proof -
  let ?Y0 = "\<lparr>shape0 = n, shape1 = factors self + 1, cell = rand_items E\<rparr>"
  have "setitem_mask_zeros ?Y0 (map (\<lambda>c. c = 0) (bincount (row Ciu))) = Inr Y"
    using assms by (simp add: init_item_factors_def Let_def split: sum.splits)
  from setitem_mask_zeros_Inr [OF this assms(3), of i j] show ?thesis by simp
qed

lemma init_user_shape:
  assumes "user_factors self = None" and "init_user_factors E self Ciu n = Inr X"
  shows "shape0 X = n" and "shape1 X = factors self + 1"
    and "i < n \<Longrightarrow> cell X i (factors self) = 1"
proof -
  let ?X0 = "\<lparr>shape0 = n, shape1 = factors self + 1, cell = rand_users E\<rparr>"
  obtain X1 where X1: "setitem_mask_zeros ?X0 (map (\<lambda>c. c = 0) (bincount (col Ciu))) = Inr X1"
    and X: "X = setitem_column X1 (factors self) 1"
    using assms by (auto simp: init_user_factors_def Let_def split: sum.splits)
  from setitem_mask_zeros_shape [OF X1]
  show "shape0 X = n" and "shape1 X = factors self + 1"
    and "i < n \<Longrightarrow> cell X i (factors self) = 1"
    by (simp_all add: X setitem_column_def)
qed

lemma init_user_fresh:
  assumes "user_factors self = None" and "init_user_factors E self Ciu n = Inr X"
    and "col Ciu \<noteq> []"
  shows "length (bincount (col Ciu)) = n
       \<and> cell X i j = (if i < n \<and> j = factors self then 1
                       else if i < n \<and> i \<notin> set (col Ciu) \<and> j < factors self + 1 then 0
                       else rand_users E i j)"
proof -
  let ?X0 = "\<lparr>shape0 = n, shape1 = factors self + 1, cell = rand_users E\<rparr>"
  obtain X1 where X1: "setitem_mask_zeros ?X0 (map (\<lambda>c. c = 0) (bincount (col Ciu))) = Inr X1"
    and X: "X = setitem_column X1 (factors self) 1"
    using assms by (auto simp: init_user_factors_def Let_def split: sum.splits)
  from setitem_mask_zeros_Inr [OF X1 assms(3), of i j] setitem_mask_zeros_shape [OF X1]
  show ?thesis
    by (simp add: X setitem_column_def)
qed

lemma init_item_fresh_returns:
  assumes "item_factors self = None" and "length (bincount (row Ciu)) = n"
  shows "\<exists>Y. init_item_factors E self Ciu n = Inr Y"
  using assms by (simp add: init_item_factors_def Let_def setitem_mask_zeros_def)

lemma init_user_fresh_returns:
  assumes "user_factors self = None" and "length (bincount (col Ciu)) = n"
  shows "\<exists>X. init_user_factors E self Ciu n = Inr X"
  using assms by (simp add: init_user_factors_def Let_def setitem_mask_zeros_def)

lemma fit_unfold: "fit E self Ciu = fit_on E self (as_float32 E Ciu)"
  unfolding fit_def fit_on_def as_float32_def Let_def train_cpu_def nthreads_of_def
  by (simp split: sum.splits)

lemma train_cpu_frame:
  assumes "train_cpu E self Ciu X Y = Inr s"
  shows "shape0 (fst (snd s)) = shape0 X \<and> shape1 (fst (snd s)) = shape1 X
       \<and> shape0 (snd (snd s)) = shape0 Y \<and> shape1 (snd (snd s)) = shape1 Y
       \<and> (shape1 X - 1 \<le> b \<longrightarrow> cell (fst (snd s)) a b = cell X a b)
       \<and> (a \<notin> set (col Ciu) \<longrightarrow> cell (fst (snd s)) a b = cell X a b)
       \<and> (a \<notin> set (row Ciu) \<longrightarrow> cell (snd (snd s)) a b = cell Y a b)"
proof -
  obtain rng' X' Y' where s: "s = (rng', X', Y')" by (cases s) auto
  show ?thesis
    using fit_epochs_frame [OF assms [unfolded train_cpu_def s], where a = a and b = b]
    by (simp add: s)
qed

lemma fit_cpu_InrD:
  assumes "fit_on E self Ciu = Inr self'" and "\<not> use_gpu self"
  shows "\<exists>Y0 X0 s.
           init_item_factors E self Ciu (fst (shape Ciu)) = Inr Y0
         \<and> init_user_factors E (self\<lparr>item_factors := Some Y0\<rparr>) Ciu (snd (shape Ciu)) = Inr X0
         \<and> train_cpu E self Ciu X0 Y0 = Inr s
         \<and> self' = self\<lparr>item_factors := Some (snd (snd s)), user_factors := Some (fst (snd s))\<rparr>"
  using assms unfolding fit_on_def
  by (auto split: sum.splits)

lemma fit_cpu_returns:
  assumes "\<not> use_gpu self"
    and "init_item_factors E self Ciu (fst (shape Ciu)) = Inr Y0"
    and "init_user_factors E (self\<lparr>item_factors := Some Y0\<rparr>) Ciu (snd (shape Ciu)) = Inr X0"
    and "call_ok E self Ciu X0 Y0"
  shows "\<exists>self'. fit_on E self Ciu = Inr self'"
proof -
  obtain s where "train_cpu E self Ciu X0 Y0 = Inr s"
    using train_cpu_returns [OF assms(4)] by blast
  then show ?thesis
    unfolding fit_on_def using assms(1-3) by simp
qed

lemma fit_retained_returns:
  assumes "\<not> use_gpu self" and "item_factors self = Some Y0" and "user_factors self = Some X0"
    and "call_ok E self Ciu X0 Y0"
  shows "\<exists>self'. fit_on E self Ciu = Inr self'"
  using assms(1) _ _ assms(4)
  by (rule fit_cpu_returns) (simp_all add: assms init_item_retained init_user_retained)

lemma bincount_bound:
  assumes "length (bincount xs) = n" and "x \<in> set xs"
  shows "x < n"
proof -
  have "xs \<noteq> []" using assms(2) by auto
  then have n: "n = Max (set xs) + 1" using assms(1) by (simp add: bincount_length)
  have "x \<le> Max (set xs)" using assms(2) by simp
  then show ?thesis using n by simp
qed

lemma fit_fresh_returns:
  assumes "\<not> use_gpu self" and "item_factors self = None" and "user_factors self = None"
    and "length (bincount (row Ciu)) = fst (shape Ciu)"
    and "length (bincount (col Ciu)) = snd (shape Ciu)"
    and "row Ciu \<noteq> []" and "length (col Ciu) = length (row Ciu)"
    and "\<forall>g. fst (uniform_int E (0, int (length (row Ciu)) - 1) g) < length (row Ciu)"
    and "\<forall>epoch k. omp_thread E epoch k < nthreads_of E self"
  shows "\<exists>self'. fit_on E self Ciu = Inr self'"
proof -
  obtain Y0 where Y0: "init_item_factors E self Ciu (fst (shape Ciu)) = Inr Y0"
    using init_item_fresh_returns [OF assms(2,4)] by blast
  let ?self1 = "self\<lparr>item_factors := Some Y0\<rparr>"
  have u1: "user_factors ?self1 = None" using assms(3) by simp
  obtain X0 where X0: "init_user_factors E ?self1 Ciu (snd (shape Ciu)) = Inr X0"
    using init_user_fresh_returns [OF u1 assms(5)] by blast
  have Ysh: "shape0 Y0 = fst (shape Ciu)" "shape1 Y0 = factors self + 1"
    using init_item_shape [OF assms(2) Y0] by simp_all
  have Xsh: "shape0 X0 = snd (shape Ciu)" "shape1 X0 = factors self + 1"
    using init_user_shape(1,2) [OF u1 X0] by simp_all
  have "call_ok E self Ciu X0 Y0"
    unfolding call_ok_def
    using assms(6-9) bincount_bound [OF assms(4)] bincount_bound [OF assms(5)]
    by (simp add: Ysh Xsh)
  with assms(1) Y0 X0 show ?thesis by (rule fit_cpu_returns)
qed

text \<open>The rows of a freshly created model after training.\<close>

lemma fit_fresh_items:
  assumes "fit_on E self Ciu = Inr self'" and "\<not> use_gpu self" and "item_factors self = None"
    and "row Ciu \<noteq> []"
  shows "\<exists>Y. item_factors self' = Some Y \<and> shape0 Y = fst (shape Ciu) \<and> shape1 Y = factors self + 1
           \<and> (\<forall>i j. i < fst (shape Ciu) \<and> i \<notin> set (row Ciu) \<and> j < factors self + 1 \<longrightarrow> cell Y i j = 0)"
proof -
  obtain Y0 X0 s where Y0: "init_item_factors E self Ciu (fst (shape Ciu)) = Inr Y0"
    and tr: "train_cpu E self Ciu X0 Y0 = Inr s"
    and self': "self' = self\<lparr>item_factors := Some (snd (snd s)), user_factors := Some (fst (snd s))\<rparr>"
    using fit_cpu_InrD [OF assms(1,2)] by blast
  have "cell (snd (snd s)) i j = 0"
    if "i < fst (shape Ciu)" "i \<notin> set (row Ciu)" "j < factors self + 1" for i j
    using train_cpu_frame [OF tr, where a = i and b = j]
      init_item_fresh [OF assms(3) Y0 assms(4), of i j] that
    by simp
  moreover have "shape0 (snd (snd s)) = fst (shape Ciu)" "shape1 (snd (snd s)) = factors self + 1"
    using train_cpu_frame [OF tr] init_item_shape [OF assms(3) Y0] by simp_all
  ultimately show ?thesis by (simp add: self')
qed

lemma fit_fresh_users:
  assumes "fit_on E self Ciu = Inr self'" and "\<not> use_gpu self" and "user_factors self = None"
  shows "\<exists>X. user_factors self' = Some X \<and> shape0 X = snd (shape Ciu) \<and> shape1 X = factors self + 1
           \<and> (\<forall>u. u < snd (shape Ciu) \<longrightarrow> cell X u (factors self) = 1)
           \<and> (col Ciu \<noteq> [] \<longrightarrow>
                (\<forall>u j. u < snd (shape Ciu) \<and> u \<notin> set (col Ciu) \<and> j < factors self \<longrightarrow> cell X u j = 0))"
proof -
  obtain Y0 X0 s where X0: "init_user_factors E (self\<lparr>item_factors := Some Y0\<rparr>) Ciu (snd (shape Ciu)) = Inr X0"
    and tr: "train_cpu E self Ciu X0 Y0 = Inr s"
    and self': "self' = self\<lparr>item_factors := Some (snd (snd s)), user_factors := Some (fst (snd s))\<rparr>"
    using fit_cpu_InrD [OF assms(1,2)] by blast
  have u1: "user_factors (self\<lparr>item_factors := Some Y0\<rparr>) = None" using assms(3) by simp
  note sh0 = init_user_shape [OF u1 X0]
  have sh: "shape0 (fst (snd s)) = snd (shape Ciu)" "shape1 (fst (snd s)) = factors self + 1"
    using train_cpu_frame [OF tr] sh0(1,2) by simp_all
  have bias: "cell (fst (snd s)) u (factors self) = 1" if "u < snd (shape Ciu)" for u
    using train_cpu_frame [OF tr, where a = u and b = "factors self"] sh0(2) sh0(3) [OF that]
    by simp
  have zero: "cell (fst (snd s)) u j = 0"
    if "col Ciu \<noteq> []" "u < snd (shape Ciu)" "u \<notin> set (col Ciu)" "j < factors self" for u j
    using train_cpu_frame [OF tr, where a = u and b = j] init_user_fresh [OF u1 X0 that(1), of u j]
      that(2-4)
    by simp
  show ?thesis using sh bias zero by (simp add: self')
qed

lemma fit_retained_users:
  assumes "fit_on E self Ciu = Inr self'" and "\<not> use_gpu self" and "user_factors self = Some X0"
  shows "\<exists>X. user_factors self' = Some X \<and> shape0 X = shape0 X0 \<and> shape1 X = shape1 X0
           \<and> (\<forall>u. cell X u (shape1 X0 - 1) = cell X0 u (shape1 X0 - 1))
           \<and> (\<forall>u j. u \<notin> set (col Ciu) \<longrightarrow> cell X u j = cell X0 u j)"
proof -
  obtain Y0 X1 s where X1: "init_user_factors E (self\<lparr>item_factors := Some Y0\<rparr>) Ciu (snd (shape Ciu)) = Inr X1"
    and tr: "train_cpu E self Ciu X1 Y0 = Inr s"
    and self': "self' = self\<lparr>item_factors := Some (snd (snd s)), user_factors := Some (fst (snd s))\<rparr>"
    using fit_cpu_InrD [OF assms(1,2)] by blast
  have "X1 = X0" using X1 assms(3) by (simp add: init_user_retained)
  then show ?thesis
    using train_cpu_frame [OF tr] by (simp add: self')
qed

lemma fit_retained_items:
  assumes "fit_on E self Ciu = Inr self'" and "\<not> use_gpu self" and "item_factors self = Some Y0"
  shows "\<exists>Y. item_factors self' = Some Y \<and> shape0 Y = shape0 Y0 \<and> shape1 Y = shape1 Y0
           \<and> (\<forall>i j. i \<notin> set (row Ciu) \<longrightarrow> cell Y i j = cell Y0 i j)"
proof -
  obtain Y1 X1 s where Y1: "init_item_factors E self Ciu (fst (shape Ciu)) = Inr Y1"
    and tr: "train_cpu E self Ciu X1 Y1 = Inr s"
    and self': "self' = self\<lparr>item_factors := Some (snd (snd s)), user_factors := Some (fst (snd s))\<rparr>"
    using fit_cpu_InrD [OF assms(1,2)] by blast
  have "Y1 = Y0" using Y1 assms(3) by (simp add: init_item_retained)
  then show ?thesis
    using train_cpu_frame [OF tr] by (simp add: self')
qed

subsection \<open>The concrete calls return\<close>

lemma ex_as_float32:
  "as_float32 ex_env ex_Ciu = \<lparr>shape = (2, 2), row = [1], col = [1], data = [3], dtype = Float32\<rparr>"
  by (simp add: as_float32_def astype_def ex_env_def ex_Ciu_def)

lemma ex_fresh_returns: "\<exists>self'. fit ex_env ex_bpr ex_Ciu = Inr self'"
  unfolding fit_unfold ex_as_float32
proof (rule fit_fresh_returns)
  show "\<forall>g. fst (uniform_int ex_env
               (0, int (length (row \<lparr>shape = (2, 2), row = [1], col = [1], data = [3], dtype = Float32\<rparr>)) - 1) g)
          < length (row \<lparr>shape = (2, 2), row = [1], col = [1], data = [3], dtype = Float32\<rparr>)"
    using counter_draw_less [of 1] by (simp add: ex_env_def)
qed (simp_all add: ex_env_def ex_bpr_def bincount_length nthreads_of_def)

lemma ex_kept_call_ok: "call_ok ex_env ex_kept (as_float32 ex_env ex_Ciu) ex_X3 ex_Y3"
proof -
  have "\<forall>g. fst (uniform_int ex_env (0, int (length [1::nat]) - 1) g) < length [1::nat]"
    using counter_draw_less [of 1] by (simp add: ex_env_def)
  then show ?thesis
    unfolding ex_as_float32
    by (simp add: call_ok_def ex_env_def ex_kept_def ex_bpr_def ex_X3_def ex_Y3_def
        nthreads_of_def)
qed

lemma ex_kept_returns: "\<exists>self'. fit ex_env ex_kept ex_Ciu = Inr self'"
  unfolding fit_unfold
  by (rule fit_retained_returns [OF _ _ _ ex_kept_call_ok])
     (simp_all add: ex_kept_def ex_bpr_def)


lemma init_item_error:
  "init_item_factors E self Ciu n = Inl r \<Longrightarrow> fst r = IndexError"
  by (auto simp: init_item_factors_def Let_def setitem_mask_zeros_def
      split: option.splits sum.splits if_splits)

lemma init_user_error:
  "init_user_factors E self Ciu n = Inl r \<Longrightarrow> fst r = IndexError"
  by (auto simp: init_user_factors_def Let_def setitem_mask_zeros_def
      split: option.splits sum.splits if_splits)




subsection \<open>What a call of \<^verbatim>\<open>fit\<close> depends on\<close>

lemma fit_epochs_env:
  assumes "uniform_int E1 = uniform_int E2" and "omp_thread E1 = omp_thread E2"
  shows "fit_epochs E1 Ciu lr reg nt dists es s = fit_epochs E2 Ciu lr reg nt dists es s"
  using assms by (induction es arbitrary: s) (simp_all split: sum.splits)


lemma train_cpu_rand:
  "train_cpu (E\<lparr>rand_items := ri, rand_users := ru\<rparr>) self Ciu X Y = train_cpu E self Ciu X Y"
  unfolding train_cpu_def nthreads_of_def
  using fit_epochs_env [of "E\<lparr>rand_items := ri, rand_users := ru\<rparr>" E]
  by simp


lemma fit_retained_unfold:
  assumes "item_factors self = Some Y0" and "user_factors self = Some X0" and "\<not> use_gpu self"
  shows "fit_on E self Ciu =
     (case train_cpu E self Ciu X0 Y0 of
        Inl r \<Rightarrow> Inl (fst r, self\<lparr>item_factors := Some (snd (snd r)), user_factors := Some (fst (snd r))\<rparr>)
      | Inr s \<Rightarrow> Inr (self\<lparr>item_factors := Some (snd (snd s)), user_factors := Some (fst (snd s))\<rparr>))"
  unfolding fit_on_def
  using assms by (simp add: init_item_retained init_user_retained)

lemma astype_simps [simp]:
  "dtype (astype E m t) = t" "shape (astype E m t) = shape m"
  by (simp_all add: astype_def)

lemma as_float32_simps [simp]:
  "dtype (as_float32 E Ciu) = Float32" "shape (as_float32 E Ciu) = shape Ciu"
  "as_float32 E (as_float32 E Ciu) = as_float32 E Ciu"
  by (simp_all add: as_float32_def)

lemma fit_cast: "fit E self Ciu = fit E self (as_float32 E Ciu)"
  unfolding fit_unfold [of E self Ciu] fit_unfold [of E self "as_float32 E Ciu"]
  by simp

subsection \<open>Counting in a list of scores\<close>



lemma dot_score_same_item: "dot_score X Y u l l = 0"
  by (simp add: dot_score_def)




subsection \<open>Generators and bodies of a call\<close>

lemma drawn_twice_two_draws:
  "drawn_twice draw dists t st = two_draws draw (dists ! t) (st_rng st ! t)"
  by (simp add: drawn_twice_def two_draws_def)

lemma bpr_loop_generators:
  assumes "bpr_loop draw dists userids itemids lr reg its st = Inr st'"
    and "t < length (st_rng st)"
  shows "st_rng st' ! t =
           (two_draws draw (dists ! t) ^^ length (filter (\<lambda>it. snd it = t) its)) (st_rng st ! t)"
  using assms
proof (induction its arbitrary: st)
  case Nil
  then show ?case by simp
next
  case (Cons it its)
  then obtain st1 where st1: "bpr_sample draw dists userids itemids lr reg (fst it) (snd it) st = Inr st1"
    and rest: "bpr_loop draw dists userids itemids lr reg its st1 = Inr st'"
    by (auto split: sum.splits)
  have rng1: "st_rng st1 = (st_rng st)[snd it := two_draws draw (dists ! snd it) (st_rng st ! snd it)]"
    using bpr_sample_InrD(2) [OF st1] by (simp add: drawn_twice_two_draws)
  have len: "t < length (st_rng st1)"
    using Cons.prems(2) by (simp add: rng1)
  note IH = Cons.IH [OF rest len]
  show ?case
  proof (cases "snd it = t")
    case True
    then have "st_rng st1 ! t = two_draws draw (dists ! t) (st_rng st ! t)"
      using Cons.prems(2) by (simp add: rng1)
    then show ?thesis
      using IH True by (simp add: funpow_swap1)
  next
    case False
    then have "st_rng st1 ! t = st_rng st ! t"
      by (simp add: rng1)
    then show ?thesis
      using IH False by simp
  qed
qed

lemma bodies_of_filter:
  "length (filter (\<lambda>it. snd it = t) (map (\<lambda>i. (i, sched i)) [0..<n])) = bodies_of sched n t"
  by (simp add: bodies_of_def filter_map o_def)

lemma bpr_update_generators:
  assumes "bpr_update draw sched rng dists userids itemids X Y lr reg nt = Inr st'"
    and "t < length rng"
  shows "st_rng st' ! t = (two_draws draw (dists ! t) ^^ bodies_of sched (length userids) t) (rng ! t)"
  using bpr_loop_generators [OF assms(1) [unfolded bpr_update_def Let_def], of t] assms(2)
  unfolding bodies_of_filter by simp

lemma bpr_loop_split:
  assumes "bpr_loop draw dists userids itemids lr reg its st = Inr st'"
    and "k < length its"
  shows "\<exists>s s'. bpr_loop draw dists userids itemids lr reg (take k its) st = Inr s
           \<and> bpr_sample draw dists userids itemids lr reg (fst (its ! k)) (snd (its ! k)) s = Inr s'
           \<and> bpr_loop draw dists userids itemids lr reg (take (Suc k) its) st = Inr s'"
  using assms
proof (induction its arbitrary: st k)
  case Nil
  then show ?case by simp
next
  case (Cons it its)
  then obtain st1 where st1: "bpr_sample draw dists userids itemids lr reg (fst it) (snd it) st = Inr st1"
    and rest: "bpr_loop draw dists userids itemids lr reg its st1 = Inr st'"
    by (auto split: sum.splits)
  show ?case
  proof (cases k)
    case 0
    then show ?thesis using st1 by simp
  next
    case (Suc m)
    then have "m < length its" using Cons.prems(2) by simp
    from Cons.IH [OF rest this] show ?thesis
      using st1 Suc by simp
  qed
qed

lemma take_bodies:
  assumes "k \<le> n"
  shows "take k (map (\<lambda>i. (i, sched i)) [0..<n]) = map (\<lambda>i. (i, sched i)) [0..<k]"
  using assms by (simp add: take_map take_upt)

lemma bpr_update_bodies:
  assumes "bpr_update draw sched rng dists userids itemids X Y lr reg nt = Inr st'"
    and "k < length userids"
  shows "\<exists>s s'. body_start draw sched rng dists userids itemids X Y lr reg k = Inr s
           \<and> bpr_sample draw dists userids itemids lr reg k (sched k) s = Inr s'
           \<and> body_start draw sched rng dists userids itemids X Y lr reg (Suc k) = Inr s'"
proof -
  let ?its = "map (\<lambda>i. (i, sched i)) [0..<length userids]"
  have loop: "bpr_loop draw dists userids itemids lr reg ?its
                \<lparr>st_rng = rng, st_X = X, st_Y = Y, st_correct = 0\<rparr> = Inr st'"
    using assms(1) by (simp add: bpr_update_def)
  have k: "k < length ?its" using assms(2) by simp
  have nth: "?its ! k = (k, sched k)" using assms(2) by simp
  have t1: "take k ?its = map (\<lambda>i. (i, sched i)) [0..<k]"
    and t2: "take (Suc k) ?its = map (\<lambda>i. (i, sched i)) [0..<Suc k]"
    using assms(2) by (simp_all only: take_bodies less_imp_le Suc_leI)
  show ?thesis
    using bpr_loop_split [OF loop k]
    unfolding nth t1 t2 fst_conv snd_conv body_start_def .
qed

lemma body_start_whole:
  "body_start draw sched rng dists userids itemids X Y lr reg (length userids)
     = bpr_update draw sched rng dists userids itemids X Y lr reg nt"
  by (simp add: body_start_def bpr_update_def)

lemma fit_epochs_split:
  assumes "fit_epochs E Ciu lr reg nt dists es s0 = Inr s'"
    and "e < length es"
  shows "\<exists>s st. fit_epochs E Ciu lr reg nt dists (take e es) s0 = Inr s
           \<and> bpr_update (uniform_int E) (omp_thread E (es ! e)) (fst s) dists (col Ciu) (row Ciu)
                (fst (snd s)) (snd (snd s)) lr reg nt = Inr st
           \<and> fit_epochs E Ciu lr reg nt dists (take (Suc e) es) s0 = Inr (st_rng st, st_X st, st_Y st)"
  using assms
proof (induction es arbitrary: s0 e)
  case Nil
  then show ?case by simp
next
  case (Cons x es)
  from Cons.prems(1) obtain st where st:
    "bpr_update (uniform_int E) (omp_thread E x) (fst s0) dists (col Ciu) (row Ciu)
        (fst (snd s0)) (snd (snd s0)) lr reg nt = Inr st"
    and ne: "length (row Ciu) \<noteq> 0"
    and rest: "fit_epochs E Ciu lr reg nt dists es (st_rng st, st_X st, st_Y st) = Inr s'"
    by (auto split: sum.splits if_splits)
  show ?case
  proof (cases e)
    case 0
    then show ?thesis using st ne by simp
  next
    case (Suc m)
    then have "m < length es" using Cons.prems(2) by simp
    from Cons.IH [OF rest this] show ?thesis
      using st ne Suc by simp
  qed
qed

lemma train_cpu_epochs [simp]: "nthreads_of E (self\<lparr>iterations := n\<rparr>) = nthreads_of E self"
  by (simp add: nthreads_of_def)

lemma train_cpu_split:
  assumes "train_cpu E self Ciu X Y = Inr s'"
    and "e < iterations self"
  shows "\<exists>rng Xe Ye st.
           train_cpu E (self\<lparr>iterations := e\<rparr>) Ciu X Y = Inr (rng, Xe, Ye)
         \<and> bpr_update (uniform_int E) (omp_thread E e) rng
              (replicate (nthreads_of E self) (0, int (length (row Ciu)) - 1)) (col Ciu) (row Ciu)
              Xe Ye (learning_rate self) (regularization self) (nthreads_of E self) = Inr st
         \<and> train_cpu E (self\<lparr>iterations := Suc e\<rparr>) Ciu X Y = Inr (st_rng st, st_X st, st_Y st)"
proof -
  have e: "e < length [0..<iterations self]" using assms(2) by simp
  have t1: "take e [0..<iterations self] = [0..<e]"
    and t2: "take (Suc e) [0..<iterations self] = [0..<Suc e]"
    and nth: "[0..<iterations self] ! e = e"
    using assms(2) by (simp_all only: take_upt nth_upt add_0 less_imp_le Suc_leI)
  from fit_epochs_split [OF assms(1) [unfolded train_cpu_def] e]
  obtain s st where
    "fit_epochs E Ciu (learning_rate self) (regularization self) (nthreads_of E self)
       (replicate (nthreads_of E self) (0, int (length (row Ciu)) - 1)) [0..<e]
       (map (\<lambda>i. mt19937 E (randint E i)) [0..<nthreads_of E self], X, Y) = Inr s"
    "bpr_update (uniform_int E) (omp_thread E e) (fst s)
       (replicate (nthreads_of E self) (0, int (length (row Ciu)) - 1)) (col Ciu) (row Ciu)
       (fst (snd s)) (snd (snd s)) (learning_rate self) (regularization self) (nthreads_of E self) = Inr st"
    "fit_epochs E Ciu (learning_rate self) (regularization self) (nthreads_of E self)
       (replicate (nthreads_of E self) (0, int (length (row Ciu)) - 1)) [0..<Suc e]
       (map (\<lambda>i. mt19937 E (randint E i)) [0..<nthreads_of E self], X, Y)
       = Inr (st_rng st, st_X st, st_Y st)"
    unfolding t1 t2 nth by blast
  then show ?thesis
    by (cases s) (auto simp: train_cpu_def simp del: upt_Suc)
qed


lemma fit_epochs_generators:
  assumes "fit_epochs E Ciu lr reg nt dists es (rng, X, Y) = Inr (rng', X', Y')"
  shows "length rng' = length rng"
  using assms
proof (induction es arbitrary: rng X Y)
  case Nil
  then show ?case by simp
next
  case (Cons epoch es)
  from Cons.prems obtain st where
    st: "bpr_update (uniform_int E) (omp_thread E epoch) rng dists (col Ciu) (row Ciu) X Y lr reg nt = Inr st"
    and rest: "fit_epochs E Ciu lr reg nt dists es (st_rng st, st_X st, st_Y st) = Inr (rng', X', Y')"
    by (auto split: sum.splits if_splits)
  show ?case
    using Cons.IH [OF rest] bpr_update_frame [OF st] by simp
qed

lemma train_cpu_generators:
  assumes "train_cpu E self Ciu X Y = Inr (rng', X', Y')"
  shows "length rng' = nthreads_of E self"
  using fit_epochs_generators [OF assms [unfolded train_cpu_def]] by simp

lemma body_sampling:
  assumes "bpr_sample draw dists userids itemids lr reg i t st = Inr st'"
  shows "t < length dists"
    and "bpr_sample draw dists userids itemids lr reg i' t st = Inr st'"
    and "body_draws draw (dists ! t) userids itemids lr reg t st st'"
proof -
  have ib: "in_bounds draw dists userids itemids t st"
    by (rule bpr_sample_InrD(1) [OF assms])
  then show "t < length dists"
    by (simp add: in_bounds_def)
  show "bpr_sample draw dists userids itemids lr reg i' t st = Inr st'"
    using assms unfolding bpr_sample_Inr_iff .
  have dup: "z_of (dot_score (st_X st) (st_Y st) u l l) = 1 / 2" for u l
    by (simp add: dot_score_same_item z_of_zero)
  show "body_draws draw (dists ! t) userids itemids lr reg t st st'"
    using ib bpr_sample_InrD(2,5) [OF assms]
    unfolding body_draws_def Let_def z_of_def [symmetric]
    by (auto simp: bpr_sample_X_cell [OF assms] bpr_sample_Y_cell [OF assms] Let_def
        in_bounds_def liked_index_def disliked_index_def drawn_twice_def dup
        new_user_def new_liked_def new_disliked_def new_liked_bias_def new_disliked_bias_def)
qed

lemma ex_two_as_float32: "as_float32 ex_env2 ex_two = ex_two"
  by (simp add: as_float32_def ex_two_def)

lemma ex_two_values:
  "col ex_two = [0, 1]" "row ex_two = [0, 1]" "nthreads_of ex_env2 ex_kept2 = 2"
  "learning_rate ex_kept2 = 1 / 10" "regularization ex_kept2 = 1 / 100"
  "uniform_int ex_env2 = script_draw" "omp_thread ex_env2 e = (\<lambda>k. k mod 2)"
  "map (\<lambda>i. mt19937 ex_env2 (randint ex_env2 i)) [0..<2] = [[0, 1], [1, 1]]"
  "item_factors ex_kept2 = Some ex_Y" "user_factors ex_kept2 = Some ex_X"
  "\<not> use_gpu ex_kept2" "iterations ex_kept2 = 1"
  by (simp_all add: ex_two_def ex_env2_def ex_kept2_def nthreads_of_def upt_rec)


lemma ex_two_first:
  "in_bounds script_draw (replicate 2 (0, 1)) [0, 1] [0, 1] 0
     \<lparr>st_rng = [[0, 1], [1, 1]], st_X = ex_X, st_Y = ex_Y, st_correct = 0\<rparr>"
  by (simp add: in_bounds_def ex_X_def ex_Y_def liked_index_def disliked_index_def script_draw_def)

lemma ex_two_epoch:
  "\<exists>st. bpr_update script_draw (\<lambda>k. k mod 2) [[0, 1], [1, 1]] (replicate 2 (0, 1)) [0, 1] [0, 1]
          ex_X ex_Y (1 / 10) (1 / 100) 2 = Inr st"
proof -
  let ?body = "bpr_sample script_draw (replicate 2 (0, 1)) [0, 1] [0, 1] (1 / 10) (1 / 100)"
  let ?st0 = "\<lparr>st_rng = [[0, 1], [1, 1]], st_X = ex_X, st_Y = ex_Y, st_correct = 0\<rparr>"
  obtain st1 where st1: "?body 0 0 ?st0 = Inr st1"
    using bpr_sample_in_bounds [OF ex_two_first] by blast
  have rng1: "st_rng st1 = [[], [1, 1]]"
    using bpr_sample_InrD(2) [OF st1]
    by (simp add: drawn_twice_def script_draw_def)
  have sh1: "shape0 (st_X st1) = 2" "shape1 (st_X st1) = 2" "shape0 (st_Y st1) = 2" "shape1 (st_Y st1) = 2"
    using bpr_sample_shapes [OF st1] by (simp_all add: ex_X_def ex_Y_def)
  have ib1: "in_bounds script_draw (replicate 2 (0, 1)) [0, 1] [0, 1] 1 st1"
    by (simp add: in_bounds_def liked_index_def disliked_index_def script_draw_def rng1 sh1)
  obtain st2 where st2: "?body 1 1 st1 = Inr st2"
    using bpr_sample_in_bounds [OF ib1] by blast
  have its: "map (\<lambda>i. (i, i mod 2)) [0..<length [0::nat, 1]] = [(0, 0), (1, 1)]"
    by (simp add: upt_rec)
  have "bpr_loop script_draw (replicate 2 (0, 1)) [0, 1] [0, 1] (1 / 10) (1 / 100)
          (map (\<lambda>i. (i, i mod 2)) [0..<length [0::nat, 1]]) ?st0 = Inr st2"
    unfolding its bpr_loop.simps fst_conv snd_conv st1 st2 sum.case by (rule refl)
  then show ?thesis
    by (simp add: bpr_update_def)
qed

lemma ex_two_returns: "\<exists>self'. fit ex_env2 ex_kept2 ex_two = Inr self'"
proof -
  obtain st where st:
    "bpr_update script_draw (\<lambda>k. k mod 2) [[0, 1], [1, 1]] (replicate 2 (0, 1)) [0, 1] [0, 1]
          ex_X ex_Y (1 / 10) (1 / 100) 2 = Inr st"
    using ex_two_epoch by blast
  have one: "[0..<1] = [0::nat]" by (simp add: upt_rec)
  have "train_cpu ex_env2 ex_kept2 ex_two ex_X ex_Y = Inr (st_rng st, st_X st, st_Y st)"
    unfolding train_cpu_def ex_two_values one fit_epochs.simps
    using st by (simp add: ex_two_values)
  then show ?thesis
    unfolding fit_unfold ex_two_as_float32
    by (simp add: fit_retained_unfold [OF ex_two_values(9,10,11)])
qed


subsection \<open>The epochs of \<^verbatim>\<open>fit\<close> accumulate\<close>

lemma fit_epochs_append:
  "fit_epochs E Ciu lr reg nt dists (es @ es') s =
     (case fit_epochs E Ciu lr reg nt dists es s of
        Inl r \<Rightarrow> Inl r
      | Inr s' \<Rightarrow> fit_epochs E Ciu lr reg nt dists es' s')"
  by (induction es arbitrary: s) (simp_all split: sum.splits)

lemma fit_epochs_one:
  "fit_epochs E Ciu lr reg nt (replicate nt (0, int (length (row Ciu)) - 1)) [e] s
     = epoch_pass E Ciu lr reg nt e s"
  by (simp add: epoch_pass_def split: sum.splits)

lemma fit_epochs_accumulated:
  "fit_epochs E Ciu lr reg nt (replicate nt (0, int (length (row Ciu)) - 1)) [0..<n] s
     = accumulated E Ciu lr reg nt n s"
proof (induction n)
  case 0
  show ?case by simp
next
  case (Suc n)
  have "[0..<Suc n] = [0..<n] @ [n]" by simp
  then show ?case
    unfolding accumulated.simps Suc [symmetric]
    by (simp only: fit_epochs_append fit_epochs_one)
qed

lemma train_cpu_accumulated:
  "train_cpu E self Ciu X Y =
     accumulated E Ciu (learning_rate self) (regularization self) (nthreads_of E self)
       (iterations self) (map (\<lambda>i. mt19937 E (randint E i)) [0..<nthreads_of E self], X, Y)"
  by (simp add: train_cpu_def fit_epochs_accumulated)

lemma as_float32_rand [simp]:
  "as_float32 (E\<lparr>rand_items := ri, rand_users := ru\<rparr>) Ciu = as_float32 E Ciu"
  by (simp add: as_float32_def astype_def)

lemma ex_kept_epoch:
  assumes "shape0 X = 3" "shape1 X = 2" "shape0 Y = 3" "shape1 Y = 2"
  shows "\<exists>st. bpr_update counter_draw (\<lambda>k. 0) [g] (replicate 1 (0, 0)) [1] [1] X Y
                 (1 / 10) (1 / 100) 1 = Inr st
           \<and> st_rng st = [g + 2]
           \<and> shape0 (st_X st) = 3 \<and> shape1 (st_X st) = 2
           \<and> shape0 (st_Y st) = 3 \<and> shape1 (st_Y st) = 2
           \<and> cell (st_X st) 1 0 = cell X 1 0 + 1 / 10 * (- (1 / 100) * cell X 1 0)
           \<and> cell (st_Y st) 1 0 =
                 (cell Y 1 0 + 1 / 10 * (1 / 2 * cell X 1 0 - 1 / 100 * cell Y 1 0))
                   + 1 / 10 * (- (1 / 2) * cell X 1 0
                                - 1 / 100 * (cell Y 1 0 + 1 / 10 * (1 / 2 * cell X 1 0 - 1 / 100 * cell Y 1 0)))
           \<and> cell (st_Y st) 1 1 =
                 (cell Y 1 1 + 1 / 10 * (1 / 2 - 1 / 100 * cell Y 1 1))
                   + 1 / 10 * (- (1 / 2) - 1 / 100 * (cell Y 1 1 + 1 / 10 * (1 / 2 - 1 / 100 * cell Y 1 1)))"
proof -
  let ?st0 = "\<lparr>st_rng = [g], st_X = X, st_Y = Y, st_correct = 0\<rparr>"
  have draws: "counter_draw (0, 0) h = (0, h + 1)" for h
    by (simp add: counter_draw_def)
  have ib: "in_bounds counter_draw (replicate 1 (0, 0)) [1] [1] 0 ?st0"
    by (simp add: in_bounds_def liked_index_def disliked_index_def draws assms)
  then obtain st where st:
    "bpr_sample counter_draw (replicate 1 (0, 0)) [1] [1] (1 / 10) (1 / 100) 0 0 ?st0 = Inr st"
    using bpr_sample_in_bounds by blast
  have upd: "bpr_update counter_draw (\<lambda>k. 0) [g] (replicate 1 (0, 0)) [1] [1] X Y
                 (1 / 10) (1 / 100) 1 = Inr st"
    using st by (simp add: bpr_update_def)
  have half: "to_float (1 / 2) = 1 / 2"
    using z_of_zero by (simp add: z_of_def)
  note sh = bpr_sample_shapes [OF st]
  have facts: "st_rng st = [g + 2]"
    "cell (st_X st) (Suc 0) 0 = cell X (Suc 0) 0 + 1 / 10 * (- (1 / 100) * cell X (Suc 0) 0)"
    "cell (st_Y st) (Suc 0) 0 =
                 (cell Y (Suc 0) 0 + 1 / 10 * (1 / 2 * cell X (Suc 0) 0 - 1 / 100 * cell Y (Suc 0) 0))
                   + 1 / 10 * (- (1 / 2) * cell X (Suc 0) 0
                                - 1 / 100 * (cell Y (Suc 0) 0 + 1 / 10 * (1 / 2 * cell X (Suc 0) 0 - 1 / 100 * cell Y (Suc 0) 0)))"
    "cell (st_Y st) (Suc 0) (Suc 0) =
                 (cell Y (Suc 0) (Suc 0) + 1 / 10 * (1 / 2 - 1 / 100 * cell Y (Suc 0) (Suc 0)))
                   + 1 / 10 * (- (1 / 2) - 1 / 100 * (cell Y (Suc 0) (Suc 0) + 1 / 10 * (1 / 2 - 1 / 100 * cell Y (Suc 0) (Suc 0))))"
    using body_sampling(3) [OF st]
    by (simp_all add: body_draws_def Let_def draws assms dot_score_same_item half)
  show ?thesis
    using upd sh facts by (simp add: assms)
qed


lemma accumulated_two:
  "accumulated E Ciu lr reg nt 2 s =
     (case epoch_pass E Ciu lr reg nt 0 s of
        Inl r \<Rightarrow> Inl r
      | Inr s' \<Rightarrow> epoch_pass E Ciu lr reg nt 1 s')"
  unfolding numeral_2_eq_2 One_nat_def accumulated.simps by simp

lemma ex_kept_entries:
  "row (as_float32 ex_env ex_Ciu) = [1]" "col (as_float32 ex_env ex_Ciu) = [1]"
  unfolding ex_as_float32 by simp_all

lemma ex_kept_values:
  "nthreads_of ex_env ex_kept = 1"
  "learning_rate ex_kept = 1 / 10" "regularization ex_kept = 1 / 100" "iterations ex_kept = 2"
  "uniform_int ex_env = counter_draw" "omp_thread ex_env e = (\<lambda>k. 0)"
  "map (\<lambda>i. mt19937 ex_env (randint ex_env i)) [0..<1] = [0]"
  "int (length [1::nat]) - 1 = 0"
  "item_factors ex_kept = Some ex_Y3" "user_factors ex_kept = Some ex_X3" "\<not> use_gpu ex_kept"
  by (simp_all add: ex_env_def ex_kept_def ex_bpr_def nthreads_of_def)


subsection \<open>The update of one sample\<close>

text \<open>
  C1. One body of the loop, started in arrays \<open>X\<close> (users) and \<open>Y\<close> (items), with
  \<open>z\<close> the value of \<open>1 / (1 + exp score)\<close> as the \<^verbatim>\<open>float\<close> variable \<^verbatim>\<open>z\<close> holds it
  and \<open>score\<close> the dot product of row \<open>u\<close> of \<open>X\<close> with the
  difference of the liked and the disliked row of \<open>Y\<close> over all \<open>K + 1\<close> columns, leaves
  in every learned column \<open>j < K\<close>: in \<open>X[u][j]\<close> its old value plus
  \<open>lr * (z * (Y[liked][j] - Y[disliked][j]) - reg * X[u][j])\<close>; in \<open>Y[liked][j]\<close> its old
  value \<open>y\<close> plus \<open>lr * (z * temp - reg * y)\<close>, with \<open>temp\<close> the old \<open>X[u][j]\<close>; and in
  \<open>Y[disliked][j]\<close> the value \<open>y\<close> it holds after that second assignment plus
  \<open>lr * (- z * temp - reg * y)\<close>. The assignments run in this order, so when both item
  rows are the same row the third one starts from the result of the second. In the
  bias column \<open>K\<close> the liked row gets \<open>lr * (z - reg * b)\<close> added and then the disliked
  row \<open>lr * (- z - reg * b)\<close>, and column \<open>K\<close> of \<open>X\<close> is left as it was in every row.
\<close>

theorem sample_update_rule:
  assumes "bpr_sample draw dists userids itemids lr reg i t st = Inr st'"
  shows
    "let X = st_X st; Y = st_Y st; X' = st_X st'; Y' = st_Y st';
         u = userids ! liked_index draw dists t st;
         liked = itemids ! liked_index draw dists t st;
         disliked = itemids ! disliked_index draw dists t st;
         K = shape1 X - 1;
         z = to_float (1 / (1 + exp (\<Sum>j\<le>K. cell X u j * (cell Y liked j - cell Y disliked j))))
     in (\<forall>j<K.
           let temp = cell X u j;
               yl = cell Y liked j + lr * (z * temp - reg * cell Y liked j);
               yd = (if disliked = liked then yl else cell Y disliked j)
           in cell X' u j = cell X u j + lr * (z * (cell Y liked j - cell Y disliked j) - reg * cell X u j)
              \<and> (liked \<noteq> disliked \<longrightarrow> cell Y' liked j = yl)
              \<and> cell Y' disliked j = yd + lr * (- z * temp - reg * yd))
        \<and> (let bl = cell Y liked K + lr * (z - reg * cell Y liked K);
                bd = (if disliked = liked then bl else cell Y disliked K)
            in (liked \<noteq> disliked \<longrightarrow> cell Y' liked K = bl)
               \<and> cell Y' disliked K = bd + lr * (- z - reg * bd))
        \<and> (\<forall>a. cell X' a K = cell X a K)"
proof -
  have ib: "in_bounds draw dists userids itemids t st"
    by (rule bpr_sample_InrD(1) [OF assms])
  then have "0 < shape1 (st_X st)" by (simp add: in_bounds_def)
  then have "{..shape1 (st_X st) - 1} = {..<shape1 (st_X st)}"
    by auto
  then have score: "(\<Sum>j\<le>shape1 (st_X st) - 1. f j) = (\<Sum>j<shape1 (st_X st). f j)" for f :: "nat \<Rightarrow> real"
    by simp
  show ?thesis
    unfolding Let_def score
    by (simp add: bpr_sample_X_cell [OF assms] bpr_sample_Y_cell [OF assms] Let_def
        dot_score_def z_of_def new_user_def new_liked_def new_disliked_def new_liked_bias_def
        new_disliked_bias_def)
qed

theorem sample_update_rule_witness:
  "\<exists>st'. bpr_sample counter_draw [(0, 1)] [0, 1] [0, 1] (1 / 10) (1 / 100) 0 0 ex_state = Inr st'
     \<and> cell (st_X st') 0 0 = 1 + 1 / 10 * (to_float (1 / (1 + exp 2)) * (1 - 0) - 1 / 100 * 1)
     \<and> cell (st_Y st') 0 0 = 1 + 1 / 10 * (to_float (1 / (1 + exp 2)) * 1 - 1 / 100 * 1)
     \<and> cell (st_Y st') 1 0 = 0 + 1 / 10 * (- (to_float (1 / (1 + exp 2))) * 1 - 1 / 100 * 0)
     \<and> cell (st_Y st') 0 1 = 1 + 1 / 10 * (to_float (1 / (1 + exp 2)) - 1 / 100 * 1)
     \<and> cell (st_Y st') 1 1 = 0 + 1 / 10 * (- (to_float (1 / (1 + exp 2))) - 1 / 100 * 0)
     \<and> cell (st_X st') 0 1 = 1"
proof -
  obtain st' where st':
    "bpr_sample counter_draw [(0, 1)] [0, 1] [0, 1] (1 / 10) (1 / 100) 0 0 ex_state = Inr st'"
    using bpr_sample_in_bounds [OF ex_state_in_bounds] by blast
  have idx: "liked_index counter_draw [(0, 1)] 0 ex_state = 0"
    "disliked_index counter_draw [(0, 1)] 0 ex_state = 1"
    by (simp_all add: liked_index_def disliked_index_def counter_draw_def ex_state_def)
  note rule = sample_update_rule [OF st', unfolded idx]
  show ?thesis
    using rule st'
    by (simp add: Let_def ex_state_def ex_X_def ex_Y_def)
qed

subsection \<open>The returned count\<close>





subsection \<open>Sampling\<close>

text \<open>
  C4. Take a call of \<^verbatim>\<open>fit\<close> that trains on the host and returns, and any of its
  epochs. The kernel is called with one generator and one distribution per thread, and
  every distribution has the bounds \<open>0\<close> and \<open>N - 1\<close>, with \<open>N\<close> the number of stored
  entries. There is one body per loop index. Each body draws twice from the
  distribution of the thread that runs it, on that thread's generator: after the call
  the generator of every thread has advanced by two draws for each body the thread ran,
  and a body changes no other generator. The loop index plays no part: the body gives
  the same result for every index. The user and the liked item are those of the first
  position drawn, the disliked item is that of the second, and no other row changes.
  Equal draws are not filtered: when both positions name the same item the score is
  \<open>0\<close>, so \<open>z = 1 / 2\<close>, the body is not counted, and the rows are still assigned, the
  item row twice. The sampler itself, \<^verbatim>\<open>uniform_int_distribution\<close>, is a parameter: what
  is fixed here are the bounds it is built with and the generator it is applied to.
\<close>

theorem sampling_rule:
  assumes "fit E self Ciu = Inr self'" and "\<not> use_gpu self" and "e < iterations self"
  shows
    "let C = as_float32 E Ciu; userids = col C; itemids = row C;
         nt = nthreads_of E self; b = (0, int (length itemids) - 1); dists = replicate nt b;
         lr = learning_rate self; reg = regularization self;
         draw = uniform_int E; sched = omp_thread E e
     in \<exists>X0 Y0 sn rng X Y st.
          init_item_factors E self C (fst (shape C)) = Inr Y0
        \<and> init_user_factors E (self\<lparr>item_factors := Some Y0\<rparr>) C (snd (shape C)) = Inr X0
        \<and> train_cpu E self C X0 Y0 = Inr sn
        \<and> self' = self\<lparr>item_factors := Some (snd (snd sn)), user_factors := Some (fst (snd sn))\<rparr>
        \<and> train_cpu E (self\<lparr>iterations := e\<rparr>) C X0 Y0 = Inr (rng, X, Y)
        \<and> bpr_update draw sched rng dists userids itemids X Y lr reg nt = Inr st
        \<and> train_cpu E (self\<lparr>iterations := Suc e\<rparr>) C X0 Y0 = Inr (st_rng st, st_X st, st_Y st)
        \<and> length rng = nt
        \<and> (\<forall>t<nt. st_rng st ! t = (two_draws draw b ^^ bodies_of sched (length userids) t) (rng ! t))
        \<and> (\<forall>k<length userids. \<exists>s s'.
              body_start draw sched rng dists userids itemids X Y lr reg k = Inr s
            \<and> body_start draw sched rng dists userids itemids X Y lr reg (Suc k) = Inr s'
            \<and> sched k < nt
            \<and> (\<forall>i. bpr_sample draw dists userids itemids lr reg i (sched k) s = Inr s')
            \<and> body_draws draw b userids itemids lr reg (sched k) s s')"
proof -
  define C where "C = as_float32 E Ciu"
  define nt where "nt = nthreads_of E self"
  define b where "b = (0::int, int (length (row C)) - 1)"
  have fit: "fit_on E self C = Inr self'"
    using assms(1) by (simp add: fit_unfold C_def)
  from fit_cpu_InrD [OF fit assms(2)] obtain Y0 X0 sn where
    Y0: "init_item_factors E self C (fst (shape C)) = Inr Y0"
    and X0: "init_user_factors E (self\<lparr>item_factors := Some Y0\<rparr>) C (snd (shape C)) = Inr X0"
    and sn: "train_cpu E self C X0 Y0 = Inr sn"
    and self': "self' = self\<lparr>item_factors := Some (snd (snd sn)), user_factors := Some (fst (snd sn))\<rparr>"
    by blast
  from train_cpu_split [OF sn assms(3)] obtain rng X Y st where
    start: "train_cpu E (self\<lparr>iterations := e\<rparr>) C X0 Y0 = Inr (rng, X, Y)"
    and st: "bpr_update (uniform_int E) (omp_thread E e) rng (replicate nt b) (col C) (row C)
               X Y (learning_rate self) (regularization self) nt = Inr st"
    and stop: "train_cpu E (self\<lparr>iterations := Suc e\<rparr>) C X0 Y0 = Inr (st_rng st, st_X st, st_Y st)"
    unfolding nt_def b_def by blast
  have len: "length rng = nt"
    using train_cpu_generators [OF start] by (simp add: nt_def)
  have gens: "st_rng st ! t = (two_draws (uniform_int E) b ^^ bodies_of (omp_thread E e) (length (col C)) t) (rng ! t)"
    if "t < nt" for t
    using bpr_update_generators [OF st, of t] that len by simp
  have bodies: "\<exists>s s'.
        body_start (uniform_int E) (omp_thread E e) rng (replicate nt b) (col C) (row C) X Y
          (learning_rate self) (regularization self) k = Inr s
      \<and> body_start (uniform_int E) (omp_thread E e) rng (replicate nt b) (col C) (row C) X Y
          (learning_rate self) (regularization self) (Suc k) = Inr s'
      \<and> omp_thread E e k < nt
      \<and> (\<forall>i. bpr_sample (uniform_int E) (replicate nt b) (col C) (row C)
                (learning_rate self) (regularization self) i (omp_thread E e k) s = Inr s')
      \<and> body_draws (uniform_int E) b (col C) (row C) (learning_rate self) (regularization self)
            (omp_thread E e k) s s'"
    if "k < length (col C)" for k
  proof -
    from bpr_update_bodies [OF st that] obtain s s' where
      s: "body_start (uniform_int E) (omp_thread E e) rng (replicate nt b) (col C) (row C) X Y
            (learning_rate self) (regularization self) k = Inr s"
      and body: "bpr_sample (uniform_int E) (replicate nt b) (col C) (row C)
            (learning_rate self) (regularization self) k (omp_thread E e k) s = Inr s'"
      and s': "body_start (uniform_int E) (omp_thread E e) rng (replicate nt b) (col C) (row C) X Y
            (learning_rate self) (regularization self) (Suc k) = Inr s'"
      by blast
    have t: "omp_thread E e k < nt"
      using body_sampling(1) [OF body] by simp
    then have nth: "replicate nt b ! omp_thread E e k = b"
      by simp
    show ?thesis
      using s s' t body_sampling(2) [OF body] body_sampling(3) [OF body, unfolded nth]
      by blast
  qed
  show ?thesis
    unfolding Let_def C_def [symmetric] nt_def [symmetric] b_def [symmetric]
    apply (rule exI [of _ X0], rule exI [of _ Y0], rule exI [of _ sn], rule exI [of _ rng],
        rule exI [of _ X], rule exI [of _ Y], rule exI [of _ st])
    using Y0 X0 sn self' start st stop len gens bodies
    by (intro conjI allI impI) simp_all
qed

theorem sampling_rule_witness:
  "\<exists>self' st s s'.
      fit ex_env2 ex_kept2 ex_two = Inr self' \<and> \<not> use_gpu ex_kept2 \<and> 0 < iterations ex_kept2
    \<and> bpr_update script_draw (\<lambda>k. k mod 2) [[0, 1], [1, 1]] (replicate 2 (0, 1)) [0, 1] [0, 1]
          ex_X ex_Y (1 / 10) (1 / 100) 2 = Inr st
    \<and> self' = ex_kept2\<lparr>item_factors := Some (st_Y st), user_factors := Some (st_X st)\<rparr>
    \<and> st_rng st ! 0 = [] \<and> st_rng st ! 1 = []
    \<and> body_start script_draw (\<lambda>k. k mod 2) [[0, 1], [1, 1]] (replicate 2 (0, 1)) [0, 1] [0, 1]
          ex_X ex_Y (1 / 10) (1 / 100) 1 = Inr s
    \<and> body_start script_draw (\<lambda>k. k mod 2) [[0, 1], [1, 1]] (replicate 2 (0, 1)) [0, 1] [0, 1]
          ex_X ex_Y (1 / 10) (1 / 100) 2 = Inr s'
    \<and> st_rng s = [[], [1, 1]] \<and> st_rng s' = [[], []]
    \<and> cell (st_X s) 0 0 = 1 + 1 / 10 * (to_float (1 / (1 + exp 2)) * (1 - 0) - 1 / 100 * 1)
    \<and> cell (st_X s) 1 0 = 1
    \<and> cell (st_X s') 0 0 = cell (st_X s) 0 0
    \<and> cell (st_X s') 1 0 = 999 / 1000
    \<and> cell (st_Y s') 0 0 = cell (st_Y s) 0 0
    \<and> cell (st_Y s') 1 0 =
          (cell (st_Y s) 1 0 + 1 / 10 * (1 / 2 * 1 - 1 / 100 * cell (st_Y s) 1 0))
            + 1 / 10 * (- (1 / 2) * 1
                         - 1 / 100 * (cell (st_Y s) 1 0 + 1 / 10 * (1 / 2 * 1 - 1 / 100 * cell (st_Y s) 1 0)))
    \<and> st_correct s' = st_correct s"
proof -
  obtain self' where fit: "fit ex_env2 ex_kept2 ex_two = Inr self'"
    using ex_two_returns by blast
  have e: "0 < iterations ex_kept2"
    by (simp add: ex_two_values)
  have more: "int (length [0::nat, 1]) - 1 = 1" "length [0::nat, 1] = 2" "int 2 - 1 = 1"
    by simp_all
  note rule = sampling_rule [OF fit ex_two_values(11) e, unfolded Let_def ex_two_as_float32 ex_two_values more]
  from rule obtain X0 Y0 sn rng X Y st where
    i1: "init_item_factors ex_env2 ex_kept2 ex_two (fst (shape ex_two)) = Inr Y0"
    and i2: "init_user_factors ex_env2 (ex_kept2\<lparr>item_factors := Some Y0\<rparr>) ex_two (snd (shape ex_two)) = Inr X0"
    and sn: "train_cpu ex_env2 ex_kept2 ex_two X0 Y0 = Inr sn"
    and self': "self' = ex_kept2\<lparr>item_factors := Some (snd (snd sn)), user_factors := Some (fst (snd sn))\<rparr>"
    and start: "train_cpu ex_env2 (ex_kept2\<lparr>iterations := 0\<rparr>) ex_two X0 Y0 = Inr (rng, X, Y)"
    and st: "bpr_update script_draw (\<lambda>k. k mod 2) rng (replicate 2 (0, 1)) [0, 1] [0, 1] X Y
               (1 / 10) (1 / 100) 2 = Inr st"
    and stop: "train_cpu ex_env2 (ex_kept2\<lparr>iterations := Suc 0\<rparr>) ex_two X0 Y0
               = Inr (st_rng st, st_X st, st_Y st)"
    and gens: "\<forall>t<2. st_rng st ! t =
                 (two_draws script_draw (0, 1) ^^ bodies_of (\<lambda>k. k mod 2) 2 t) (rng ! t)"
    and bodies: "\<forall>k<2. \<exists>s s'.
        body_start script_draw (\<lambda>k. k mod 2) rng (replicate 2 (0, 1)) [0, 1] [0, 1] X Y
          (1 / 10) (1 / 100) k = Inr s
      \<and> body_start script_draw (\<lambda>k. k mod 2) rng (replicate 2 (0, 1)) [0, 1] [0, 1] X Y
          (1 / 10) (1 / 100) (Suc k) = Inr s'
      \<and> k mod 2 < 2
      \<and> (\<forall>i. bpr_sample script_draw (replicate 2 (0, 1)) [0, 1] [0, 1] (1 / 10) (1 / 100)
                i (k mod 2) s = Inr s')
      \<and> body_draws script_draw (0, 1) [0, 1] [0, 1] (1 / 10) (1 / 100) (k mod 2) s s'"
    by blast
  have Y0: "Y0 = ex_Y"
    using i1 by (simp add: init_item_factors_def ex_two_values)
  have X0: "X0 = ex_X"
    using i2 by (simp add: init_user_factors_def ex_two_values)
  have "train_cpu ex_env2 (ex_kept2\<lparr>iterations := 0\<rparr>) ex_two X0 Y0 = Inr ([[0, 1], [1, 1]], ex_X, ex_Y)"
    by (simp add: train_cpu_def ex_two_values X0 Y0)
  then have init: "rng = [[0, 1], [1, 1]]" "X = ex_X" "Y = ex_Y"
    using start by simp_all
  have "iterations ex_kept2 = Suc 0"
    by (simp add: ex_two_values)
  then have "ex_kept2\<lparr>iterations := Suc 0\<rparr> = ex_kept2"
    by (simp add: ex_kept2_def)
  then have "sn = (st_rng st, st_X st, st_Y st)"
    using sn stop by simp
  then have self'': "self' = ex_kept2\<lparr>item_factors := Some (st_Y st), user_factors := Some (st_X st)\<rparr>"
    using self' by simp
  have count: "bodies_of (\<lambda>k. k mod 2) 2 0 = 1" "bodies_of (\<lambda>k. k mod 2) 2 1 = 1"
    by (simp_all add: bodies_of_def upt_rec)
  have g0: "st_rng st ! 0 = []"
    using gens [rule_format, of 0] unfolding count init
    by (simp add: two_draws_def script_draw_def)
  have g1: "st_rng st ! 1 = []"
    using gens [rule_format, of 1] unfolding count init
    by (simp add: two_draws_def script_draw_def)
  from bodies obtain s0 s1 where
    s0: "body_start script_draw (\<lambda>k. k mod 2) rng (replicate 2 (0, 1)) [0, 1] [0, 1] X Y
          (1 / 10) (1 / 100) 0 = Inr s0"
    and s1: "body_start script_draw (\<lambda>k. k mod 2) rng (replicate 2 (0, 1)) [0, 1] [0, 1] X Y
          (1 / 10) (1 / 100) (Suc 0) = Inr s1"
    and body0: "bpr_sample script_draw (replicate 2 (0, 1)) [0, 1] [0, 1] (1 / 10) (1 / 100)
                0 (0 mod 2) s0 = Inr s1"
    and draws0: "body_draws script_draw (0, 1) [0, 1] [0, 1] (1 / 10) (1 / 100) (0 mod 2) s0 s1"
    by (metis zero_less_numeral)
  have s0_eq: "s0 = \<lparr>st_rng = [[0, 1], [1, 1]], st_X = ex_X, st_Y = ex_Y, st_correct = 0\<rparr>"
    using s0 by (simp add: body_start_def init)
  have score0: "dot_score ex_X ex_Y 0 0 (Suc 0) = 2"
    by (simp add: dot_score_def ex_X_def ex_Y_def lessThan_Suc numeral_2_eq_2)
  have cells: "cell ex_X a j = 1" "shape1 ex_X = 2" "cell ex_Y 0 j = 1" "cell ex_Y (Suc 0) j = 0" for a j
    by (simp_all add: ex_X_def ex_Y_def)
  have sh1: "shape1 (st_X s1) = 2"
    using bpr_sample_shapes(2) [OF body0] by (simp add: s0_eq ex_X_def)
  have rng1: "st_rng s1 = [[], [1, 1]]"
    and x00: "cell (st_X s1) 0 0 = 1 + 1 / 10 * (to_float (1 / (1 + exp 2)) * (1 - 0) - 1 / 100 * 1)"
    and x10: "cell (st_X s1) 1 0 = 1"
    using draws0
    by (simp_all add: body_draws_def Let_def s0_eq script_draw_def score0 cells)
  from bodies obtain s s' where
    s: "body_start script_draw (\<lambda>k. k mod 2) rng (replicate 2 (0, 1)) [0, 1] [0, 1] X Y
          (1 / 10) (1 / 100) 1 = Inr s"
    and s': "body_start script_draw (\<lambda>k. k mod 2) rng (replicate 2 (0, 1)) [0, 1] [0, 1] X Y
          (1 / 10) (1 / 100) (Suc 1) = Inr s'"
    and draws1: "body_draws script_draw (0, 1) [0, 1] [0, 1] (1 / 10) (1 / 100) (1 mod 2) s s'"
    by (metis one_less_numeral_iff semiring_norm(76))
  have x10': "cell (st_X s1) (Suc 0) 0 = 1"
    using x10 by simp
  have half: "to_float (1 / 2) = 1 / 2"
    using z_of_zero by (simp add: z_of_def)
  have s_eq: "s = s1"
    using s s1 by simp
  have two: "Suc 1 = 2" by simp
  have after: "st_rng s' = [[], []]"
    "cell (st_X s') 0 0 = cell (st_X s) 0 0"
    "cell (st_X s') 1 0 = 999 / 1000"
    "cell (st_Y s') 0 0 = cell (st_Y s) 0 0"
    "cell (st_Y s') 1 0 =
          (cell (st_Y s) 1 0 + 1 / 10 * (1 / 2 * 1 - 1 / 100 * cell (st_Y s) 1 0))
            + 1 / 10 * (- (1 / 2) * 1
                         - 1 / 100 * (cell (st_Y s) 1 0 + 1 / 10 * (1 / 2 * 1 - 1 / 100 * cell (st_Y s) 1 0)))"
    "st_correct s' = st_correct s"
    using draws1
    by (simp_all add: body_draws_def Let_def s_eq rng1 sh1 x10' script_draw_def
        dot_score_same_item half)
  show ?thesis
    apply (rule exI [of _ self'], rule exI [of _ st], rule exI [of _ s], rule exI [of _ s'])
    using fit ex_two_values(11) e st [unfolded init] self'' g0 g1 s [unfolded init]
      s' [unfolded init two] rng1 [folded s_eq] x00 [folded s_eq] x10 [folded s_eq] after
    by (intro conjI) assumption+
qed


subsection \<open>One worker\<close>

text \<open>
  C6. With one thread, two calls of the kernel on the same generators, the same
  interaction index and the same arrays give the same result, whatever the schedule of
  each call: the same arrays, the same count and the same generators afterwards.
\<close>

theorem single_worker_deterministic:
  assumes "nthreads = 1"
    and "\<forall>k<length userids. s1 k < nthreads"
    and "\<forall>k<length userids. s2 k < nthreads"
  shows "bpr_update draw s1 rng dists userids itemids X Y lr reg nthreads
       = bpr_update draw s2 rng dists userids itemids X Y lr reg nthreads"
proof -
  have "map (\<lambda>i. (i, s1 i)) [0..<length userids] = map (\<lambda>i. (i, s2 i)) [0..<length userids]"
    using assms by simp
  then show ?thesis unfolding bpr_update_def Let_def by (rule arg_cong2 [OF _ refl])
qed

theorem single_worker_deterministic_witness:
  "ex_sched 0 < 1 \<and> ex_sched 1 < 1 \<and> ex_sched' 0 < 1 \<and> ex_sched' 1 < 1
   \<and> bpr_update counter_draw ex_sched [0] [(0, 1)] [0, 1] [0, 1] ex_X ex_Y (1 / 10) (1 / 100) 1
     = bpr_update counter_draw ex_sched' [0] [(0, 1)] [0, 1] [0, 1] ex_X ex_Y (1 / 10) (1 / 100) 1
   \<and> (\<exists>st'. bpr_update counter_draw ex_sched' [0] [(0, 1)] [0, 1] [0, 1] ex_X ex_Y (1 / 10) (1 / 100) 1 = Inr st')"
proof -
  have a: "\<forall>k<length [0::nat, 1]. ex_sched k < 1" by (simp add: ex_sched_def)
  have b: "\<forall>k<length [0::nat, 1]. ex_sched' k < 1" by (simp add: ex_sched'_def)
  have c: "\<forall>k<length [0::nat, 1]. ex_sched' k < length [(0::int, 1::int)]" using b by simp
  note eq = single_worker_deterministic [OF refl a b, of counter_draw "[0]" "[(0, 1)]" "[0, 1]" ex_X ex_Y "1 / 10" "1 / 100"]
  have d: "ex_sched 0 < 1 \<and> ex_sched 1 < 1 \<and> ex_sched' 0 < 1 \<and> ex_sched' 1 < 1"
    by (simp add: ex_sched_def ex_sched'_def)
  show ?thesis
    using d eq bpr_update_returns [OF ex_kernel_ok c] by blast
qed

subsection \<open>Rows without interactions\<close>

text \<open>
  C2, as amended. When \<^verbatim>\<open>fit\<close> creates both factor arrays for a matrix with at least
  one stored entry and returns from training on the host, after any number of epochs:
  the row of every item without a stored entry is zero in all \<open>K + 1\<close> columns, and the
  row of every user without a stored entry is zero in the \<open>K\<close> learned columns and \<open>1\<close>
  in the bias column. The stored entries are those of the matrix \<^verbatim>\<open>fit\<close> works on, which
  is the input itself when its element type is single precision.
\<close>

theorem zero_interaction_rows:
  assumes "fit E self Ciu = Inr self'" and "\<not> use_gpu self"
    and "item_factors self = None" and "user_factors self = None"
    and "row (as_float32 E Ciu) \<noteq> []" and "col (as_float32 E Ciu) \<noteq> []"
  shows "\<exists>X Y. user_factors self' = Some X \<and> item_factors self' = Some Y
     \<and> (\<forall>i<fst (shape Ciu). i \<notin> set (row (as_float32 E Ciu)) \<longrightarrow>
           (\<forall>j<factors self + 1. cell Y i j = 0))
     \<and> (\<forall>u<snd (shape Ciu). u \<notin> set (col (as_float32 E Ciu)) \<longrightarrow>
           (\<forall>j<factors self. cell X u j = 0) \<and> cell X u (factors self) = 1)"
  using fit_fresh_items [OF assms(1) [unfolded fit_unfold] assms(2,3,5)]
    fit_fresh_users [OF assms(1) [unfolded fit_unfold] assms(2,4)] assms(6)
  by auto

theorem zero_interaction_rows_witness:
  "\<exists>self' X Y. fit ex_env ex_bpr ex_Ciu = Inr self'
     \<and> row (as_float32 ex_env ex_Ciu) = [1] \<and> col (as_float32 ex_env ex_Ciu) = [1]
     \<and> user_factors self' = Some X \<and> item_factors self' = Some Y
     \<and> cell Y 0 0 = 0 \<and> cell Y 0 1 = 0 \<and> cell X 0 0 = 0 \<and> cell X 0 1 = 1"
proof -
  obtain self' where fit: "fit ex_env ex_bpr ex_Ciu = Inr self'"
    using ex_fresh_returns by blast
  have pre: "\<not> use_gpu ex_bpr" "item_factors ex_bpr = None" "user_factors ex_bpr = None"
    "row (as_float32 ex_env ex_Ciu) \<noteq> []" "col (as_float32 ex_env ex_Ciu) \<noteq> []"
    by (simp_all add: ex_bpr_def ex_as_float32)
  from zero_interaction_rows [OF fit pre] obtain X Y where
    "user_factors self' = Some X" "item_factors self' = Some Y"
    and Y: "\<forall>i<fst (shape ex_Ciu). i \<notin> set (row (as_float32 ex_env ex_Ciu)) \<longrightarrow>
              (\<forall>j<factors ex_bpr + 1. cell Y i j = 0)"
    and X: "\<forall>u<snd (shape ex_Ciu). u \<notin> set (col (as_float32 ex_env ex_Ciu)) \<longrightarrow>
           (\<forall>j<factors ex_bpr. cell X u j = 0) \<and> cell X u (factors ex_bpr) = 1"
    by blast
  moreover have "cell Y 0 0 = 0 \<and> cell Y 0 1 = 0"
    using Y [unfolded ex_as_float32, rule_format, of 0] by (simp add: ex_Ciu_def ex_bpr_def)
  moreover have "cell X 0 0 = 0 \<and> cell X 0 1 = 1"
    using X [unfolded ex_as_float32, rule_format, of 0] by (simp add: ex_Ciu_def ex_bpr_def)
  moreover have "row (as_float32 ex_env ex_Ciu) = [1] \<and> col (as_float32 ex_env ex_Ciu) = [1]"
    by (simp add: ex_as_float32)
  ultimately show ?thesis using fit by blast
qed

text \<open>
  The claim as stated fails for users: user 0 has no stored entry, and its row holds
  \<open>1\<close> in the bias column after training.
\<close>

theorem zero_user_row_counterexample:
  "\<not> isl (fit ex_env ex_bpr ex_Ciu) \<and> 0 \<notin> set (col ex_Ciu) \<and> (0::nat) < snd (shape ex_Ciu)
   \<and> cell (the (user_factors (projr (fit ex_env ex_bpr ex_Ciu)))) 0 (factors ex_bpr) = 1"
proof -
  obtain self' where fit: "fit ex_env ex_bpr ex_Ciu = Inr self'"
    using ex_fresh_returns by blast
  have "\<not> use_gpu ex_bpr" "user_factors ex_bpr = None"
    by (simp_all add: ex_bpr_def)
  from fit_fresh_users [OF fit [unfolded fit_unfold] this] obtain X where
    X: "user_factors self' = Some X"
      "\<forall>u. u < snd (shape (as_float32 ex_env ex_Ciu)) \<longrightarrow> cell X u (factors ex_bpr) = 1"
    by blast
  have pos: "(0::nat) < snd (shape ex_Ciu)" and no: "0 \<notin> set (col ex_Ciu)"
    by (simp_all add: ex_Ciu_def)
  have "cell X 0 (factors ex_bpr) = 1"
    using X(2) pos by simp
  then show ?thesis
    using pos no by (simp add: fit X(1))
qed

text \<open>
  Outside the amended statement. When the item with the highest number has no stored
  entry, \<^verbatim>\<open>np.bincount\<close> returns fewer counts than the array has rows, and the mask
  assignment of line 113 raises; the random array is stored in the object by then. When
  the matrix has no stored entry at all, the mask is empty, no row is zeroed, and a call
  that asks for no epoch returns with the random rows.
\<close>

lemma fit_last_item_empty:
  "fit ex_env ex_bpr ex_last_empty =
     Inl (IndexError,
          ex_bpr\<lparr>item_factors := Some \<lparr>shape0 = 2, shape1 = 2, cell = rand_items ex_env\<rparr>\<rparr>)"
  by (simp add: fit_def init_item_factors_def setitem_mask_zeros_def bincount_def Let_def
      ex_last_empty_def ex_bpr_def)

lemma fit_no_entries:
  "fit ex_env (ex_bpr\<lparr>iterations := 0\<rparr>) ex_empty =
     Inr (ex_bpr\<lparr>iterations := 0,
                 item_factors := Some \<lparr>shape0 = 2, shape1 = 2, cell = rand_items ex_env\<rparr>,
                 user_factors := Some (setitem_column \<lparr>shape0 = 2, shape1 = 2, cell = rand_users ex_env\<rparr> 1 1)\<rparr>)"
  by (simp add: fit_def init_item_factors_def init_user_factors_def setitem_mask_zeros_def
      bincount_def Let_def ex_empty_def ex_bpr_def numeral_2_eq_2)


subsection \<open>The bias column of the users\<close>

text \<open>
  C5. When \<^verbatim>\<open>fit\<close> returns from training on the host, after any number of epochs:
  if it created the user array, the array has \<open>K + 1\<close> columns and column \<open>K\<close> is \<open>1\<close>
  in every user row; if it took the user array over from an earlier call, the last
  column of that array is in every row what it was before the call. No update writes
  to it.
\<close>

theorem user_bias_column:
  assumes "fit E self Ciu = Inr self'" and "\<not> use_gpu self"
  shows "\<exists>X. user_factors self' = Some X
     \<and> (user_factors self = None \<longrightarrow>
          shape1 X = factors self + 1 \<and> (\<forall>u<shape0 X. cell X u (factors self) = 1))
     \<and> (\<forall>X0. user_factors self = Some X0 \<longrightarrow>
          shape1 X = shape1 X0 \<and> (\<forall>u. cell X u (shape1 X0 - 1) = cell X0 u (shape1 X0 - 1)))"
proof (cases "user_factors self")
  case None
  from fit_fresh_users [OF assms(1) [unfolded fit_unfold] assms(2) None]
  show ?thesis using None by auto
next
  case (Some X0)
  from fit_retained_users [OF assms(1) [unfolded fit_unfold] assms(2) Some]
  show ?thesis using Some by auto
qed

theorem user_bias_column_witness:
  "\<exists>self' X. fit ex_env ex_bpr ex_Ciu = Inr self' \<and> user_factors self' = Some X
      \<and> shape1 X = 2 \<and> cell X 0 1 = 1 \<and> cell X 1 1 = 1"
proof -
  obtain self' where fit: "fit ex_env ex_bpr ex_Ciu = Inr self'"
    using ex_fresh_returns by blast
  have g: "\<not> use_gpu ex_bpr" by (simp add: ex_bpr_def)
  have n: "user_factors ex_bpr = None" by (simp add: ex_bpr_def)
  from user_bias_column [OF fit g] obtain X where X: "user_factors self' = Some X"
    and b: "shape1 X = factors ex_bpr + 1" "\<forall>u<shape0 X. cell X u (factors ex_bpr) = 1"
    using n by auto
  have "shape0 X = 2"
    using fit_fresh_users [OF fit [unfolded fit_unfold ex_as_float32] g n] X by auto
  then have "cell X 0 1 = 1 \<and> cell X 1 1 = 1" "shape1 X = 2"
    using b by (simp_all add: ex_bpr_def)
  then show ?thesis using fit X by blast
qed

subsection \<open>Training on an accelerator that is not there\<close>





subsection \<open>Element type and shape of the input\<close>

text \<open>
  C8, as amended. A call of \<^verbatim>\<open>fit\<close> on a matrix behaves exactly as the call on the
  matrix it works on after lines 100 to 102, whose element type is single precision: for
  an input of another element type that is the matrix \<^verbatim>\<open>astype\<close> returns, which has the
  shape of the input; the cast is the first thing \<^verbatim>\<open>fit\<close> does with such an input. The
  shape of the input is not compared with factor arrays kept from an earlier call: on the
  host, whenever every stored user and item number of that matrix is a row of the kept
  arrays (and the other conditions of \<open>call_ok\<close> hold), the call returns normally, with
  arrays of the shapes the kept arrays had.
\<close>

theorem input_handling:
  "dtype (as_float32 E Ciu) = Float32
   \<and> (dtype Ciu \<noteq> Float32 \<longrightarrow> as_float32 E Ciu = astype E Ciu Float32)
   \<and> shape (astype E Ciu Float32) = shape Ciu
   \<and> fit E self Ciu = fit E self (as_float32 E Ciu)
   \<and> (\<forall>X0 Y0. \<not> use_gpu self \<and> item_factors self = Some Y0 \<and> user_factors self = Some X0
               \<and> call_ok E self (as_float32 E Ciu) X0 Y0 \<longrightarrow>
         (\<exists>self' X Y. fit E self Ciu = Inr self'
             \<and> user_factors self' = Some X \<and> item_factors self' = Some Y
             \<and> shape0 X = shape0 X0 \<and> shape1 X = shape1 X0
             \<and> shape0 Y = shape0 Y0 \<and> shape1 Y = shape1 Y0))"
proof (intro conjI allI impI)
  fix X0 Y0
  assume a: "\<not> use_gpu self \<and> item_factors self = Some Y0 \<and> user_factors self = Some X0
               \<and> call_ok E self (as_float32 E Ciu) X0 Y0"
  then obtain self' where fit: "fit_on E self (as_float32 E Ciu) = Inr self'"
    using fit_retained_returns [of self Y0 X0 E "as_float32 E Ciu"] by blast
  from fit_retained_users [OF fit] fit_retained_items [OF fit] a fit
  show "\<exists>self' X Y. fit E self Ciu = Inr self'
             \<and> user_factors self' = Some X \<and> item_factors self' = Some Y
             \<and> shape0 X = shape0 X0 \<and> shape1 X = shape1 X0
             \<and> shape0 Y = shape0 Y0 \<and> shape1 Y = shape1 Y0"
    unfolding fit_unfold by fastforce
next
  show "fit E self Ciu = fit E self (as_float32 E Ciu)"
    by (rule fit_cast)
qed (simp_all add: as_float32_def)

theorem input_handling_witness:
  "dtype ex_Ciu \<noteq> Float32 \<and> dtype (astype ex_env ex_Ciu Float32) = Float32
   \<and> fit ex_env ex_kept ex_Ciu = fit ex_env ex_kept (astype ex_env ex_Ciu Float32)
   \<and> (\<exists>self' X Y. fit ex_env ex_kept ex_Ciu = Inr self'
         \<and> user_factors self' = Some X \<and> item_factors self' = Some Y
         \<and> shape0 X = 3 \<and> shape1 X = 2 \<and> shape0 Y = 3 \<and> shape1 Y = 2)"
proof -
  note ih = input_handling [of ex_env ex_Ciu ex_kept]
  have ne: "dtype ex_Ciu \<noteq> Float32" by (simp add: ex_Ciu_def)
  then have cast: "as_float32 ex_env ex_Ciu = astype ex_env ex_Ciu Float32"
    using ih by blast
  have pre: "\<not> use_gpu ex_kept \<and> item_factors ex_kept = Some ex_Y3 \<and> user_factors ex_kept = Some ex_X3
      \<and> call_ok ex_env ex_kept (as_float32 ex_env ex_Ciu) ex_X3 ex_Y3"
    using ex_kept_call_ok by (simp add: ex_kept_def ex_bpr_def)
  have "\<exists>self' X Y. fit ex_env ex_kept ex_Ciu = Inr self'
             \<and> user_factors self' = Some X \<and> item_factors self' = Some Y
             \<and> shape0 X = shape0 ex_X3 \<and> shape1 X = shape1 ex_X3
             \<and> shape0 Y = shape0 ex_Y3 \<and> shape1 Y = shape1 ex_Y3"
    using ih pre by blast
  then have "\<exists>self' X Y. fit ex_env ex_kept ex_Ciu = Inr self'
         \<and> user_factors self' = Some X \<and> item_factors self' = Some Y
         \<and> shape0 X = 3 \<and> shape1 X = 2 \<and> shape0 Y = 3 \<and> shape1 Y = 2"
    by (simp add: ex_X3_def ex_Y3_def)
  moreover have "dtype (astype ex_env ex_Ciu Float32) = Float32"
    using ih unfolding cast by blast
  moreover have "fit ex_env ex_kept ex_Ciu = fit ex_env ex_kept (astype ex_env ex_Ciu Float32)"
    using ih unfolding cast by blast
  ultimately show ?thesis using ne by blast
qed

text \<open>
  The claim as stated fails: the kept arrays have three rows, the input has two items
  and two users, and the call returns normally.
\<close>

theorem shape_mismatch_counterexample:
  "item_factors ex_kept = Some ex_Y3 \<and> user_factors ex_kept = Some ex_X3
   \<and> shape0 ex_Y3 \<noteq> fst (shape ex_Ciu) \<and> shape0 ex_X3 \<noteq> snd (shape ex_Ciu)
   \<and> \<not> isl (fit ex_env ex_kept ex_Ciu)"
proof -
  obtain self' where "fit ex_env ex_kept ex_Ciu = Inr self'"
    using ex_kept_returns by blast
  then show ?thesis
    by (simp add: ex_kept_def ex_X3_def ex_Y3_def ex_Ciu_def)
qed


subsection \<open>Stored values\<close>





subsection \<open>A second call of \<^verbatim>\<open>fit\<close>\<close>

text \<open>
  C10. When the object already holds both factor arrays, \<^verbatim>\<open>fit\<close> on the host runs its
  epochs on these arrays as they are, and the epochs accumulate: the first pass of the
  kernel runs over the kept arrays, every later pass over what the passes before it have
  left, and the object ends with the arrays the last pass leaves. The result does not
  depend on what \<^verbatim>\<open>np.random.rand\<close> would return; with no epoch the object is returned
  unchanged; and when the call returns, the row of every user and of every item without
  a stored entry, and the last column of the user array in every row, hold what they
  held before the call, whether that was zero, one or anything else.
\<close>

theorem retained_factors_reused:
  assumes "item_factors self = Some Y0" and "user_factors self = Some X0" and "\<not> use_gpu self"
  shows
    "let C = as_float32 E Ciu; nt = nthreads_of E self;
         seeds = map (\<lambda>i. mt19937 E (randint E i)) [0..<nt]
     in fit E self Ciu =
           (case accumulated E C (learning_rate self) (regularization self) nt (iterations self)
                   (seeds, X0, Y0) of
              Inl r \<Rightarrow> Inl (fst r, self\<lparr>item_factors := Some (snd (snd r)),
                                        user_factors := Some (fst (snd r))\<rparr>)
            | Inr s \<Rightarrow> Inr (self\<lparr>item_factors := Some (snd (snd s)),
                                  user_factors := Some (fst (snd s))\<rparr>))
        \<and> fit (E\<lparr>rand_items := ri, rand_users := ru\<rparr>) self Ciu = fit E self Ciu
        \<and> (iterations self = 0 \<longrightarrow> fit E self Ciu = Inr self)
        \<and> (\<forall>self'. fit E self Ciu = Inr self' \<longrightarrow>
             (\<exists>X Y. user_factors self' = Some X \<and> item_factors self' = Some Y
                \<and> (\<forall>u j. u \<notin> set (col C) \<longrightarrow> cell X u j = cell X0 u j)
                \<and> (\<forall>i j. i \<notin> set (row C) \<longrightarrow> cell Y i j = cell Y0 i j)
                \<and> (\<forall>u. cell X u (shape1 X0 - 1) = cell X0 u (shape1 X0 - 1))))"
  unfolding Let_def
proof (intro conjI allI impI)
  show "fit E self Ciu =
           (case accumulated E (as_float32 E Ciu) (learning_rate self) (regularization self)
                   (nthreads_of E self) (iterations self)
                   (map (\<lambda>i. mt19937 E (randint E i)) [0..<nthreads_of E self], X0, Y0) of
              Inl r \<Rightarrow> Inl (fst r, self\<lparr>item_factors := Some (snd (snd r)),
                                        user_factors := Some (fst (snd r))\<rparr>)
            | Inr s \<Rightarrow> Inr (self\<lparr>item_factors := Some (snd (snd s)),
                                  user_factors := Some (fst (snd s))\<rparr>))"
    unfolding fit_unfold fit_retained_unfold [OF assms] train_cpu_accumulated ..
next
  show "fit (E\<lparr>rand_items := ri, rand_users := ru\<rparr>) self Ciu = fit E self Ciu"
    unfolding fit_unfold fit_retained_unfold [OF assms] as_float32_rand train_cpu_rand ..
next
  assume "iterations self = 0"
  then have "train_cpu E self (as_float32 E Ciu) X0 Y0
      = Inr (map (\<lambda>i. mt19937 E (randint E i)) [0..<nthreads_of E self], X0, Y0)"
    by (simp add: train_cpu_def)
  then show "fit E self Ciu = Inr self"
    unfolding fit_unfold fit_retained_unfold [OF assms] using assms(1,2) by simp
next
  fix self'
  assume fit: "fit E self Ciu = Inr self'"
  from fit_retained_users [OF fit [unfolded fit_unfold] assms(3,2)]
    fit_retained_items [OF fit [unfolded fit_unfold] assms(3,1)]
  show "\<exists>X Y. user_factors self' = Some X \<and> item_factors self' = Some Y
             \<and> (\<forall>u j. u \<notin> set (col (as_float32 E Ciu)) \<longrightarrow> cell X u j = cell X0 u j)
             \<and> (\<forall>i j. i \<notin> set (row (as_float32 E Ciu)) \<longrightarrow> cell Y i j = cell Y0 i j)
             \<and> (\<forall>u. cell X u (shape1 X0 - 1) = cell X0 u (shape1 X0 - 1))"
    by fastforce
qed


theorem retained_factors_reused_witness:
  "item_factors ex_kept = Some ex_Y3 \<and> user_factors ex_kept = Some ex_X3 \<and> \<not> use_gpu ex_kept
   \<and> iterations ex_kept = 2
   \<and> fit (ex_env\<lparr>rand_items := (\<lambda>i j. 9), rand_users := (\<lambda>i j. 8)\<rparr>) ex_kept ex_Ciu
       = fit ex_env ex_kept ex_Ciu
   \<and> (\<exists>self' X Y. fit ex_env ex_kept ex_Ciu = Inr self'
         \<and> user_factors self' = Some X \<and> item_factors self' = Some Y
         \<and> cell ex_X3 1 0 = 5 \<and> cell X 1 0 = 998001 / 200000
         \<and> cell ex_Y3 1 0 = 7 \<and> cell Y 1 0 = 6971542721757 / 1000000000000
         \<and> cell ex_Y3 1 1 = 7 \<and> cell Y 1 1 = 6971942071957 / 1000000000000
         \<and> cell X 0 0 = 5 \<and> cell X 0 1 = 5 \<and> cell X 1 1 = 5 \<and> cell Y 0 0 = 7 \<and> cell Y 0 1 = 7)"
proof -
  note a = ex_kept_values(9,10,11)
  note r = retained_factors_reused [OF a, where E = ex_env and Ciu = ex_Ciu
      and ri = "\<lambda>i j. 9" and ru = "\<lambda>i j. 8", unfolded Let_def]
  have sh: "shape0 ex_X3 = 3" "shape1 ex_X3 = 2" "shape0 ex_Y3 = 3" "shape1 ex_Y3 = 2"
    by (simp_all add: ex_X3_def ex_Y3_def)
  have old: "cell ex_X3 1 0 = 5" "cell ex_Y3 1 0 = 7" "cell ex_Y3 1 1 = 7"
    by (simp_all add: ex_X3_def ex_Y3_def)
  from ex_kept_epoch [OF sh, of 0] obtain st1 where
    st1: "bpr_update counter_draw (\<lambda>k. 0) [0] (replicate 1 (0, 0)) [1] [1] ex_X3 ex_Y3
            (1 / 10) (1 / 100) 1 = Inr st1"
    and rng1: "st_rng st1 = [2]"
    and sh1: "shape0 (st_X st1) = 3" "shape1 (st_X st1) = 2"
      "shape0 (st_Y st1) = 3" "shape1 (st_Y st1) = 2"
    and x1: "cell (st_X st1) 1 0 = 999 / 200"
    and y1: "cell (st_Y st1) 1 0 = 6985757 / 1000000"
    and b1: "cell (st_Y st1) 1 1 = 6985957 / 1000000"
    unfolding old by auto
  from ex_kept_epoch [OF sh1, of 2] obtain st2 where
    st2: "bpr_update counter_draw (\<lambda>k. 0) [2] (replicate 1 (0, 0)) [1] [1] (st_X st1) (st_Y st1)
            (1 / 10) (1 / 100) 1 = Inr st2"
    and x2: "cell (st_X st2) 1 0 = 998001 / 200000"
    and y2: "cell (st_Y st2) 1 0 = 6971542721757 / 1000000000000"
    and b2: "cell (st_Y st2) 1 1 = 6971942071957 / 1000000000000"
    unfolding x1 y1 b1 by auto
  have p0: "epoch_pass ex_env (as_float32 ex_env ex_Ciu) (1 / 10) (1 / 100) 1 0 ([0], ex_X3, ex_Y3)
              = Inr (st_rng st1, st_X st1, st_Y st1)"
    unfolding epoch_pass_def ex_kept_entries ex_kept_values fst_conv snd_conv st1 sum.case by simp
  have p1: "epoch_pass ex_env (as_float32 ex_env ex_Ciu) (1 / 10) (1 / 100) 1 1
                (st_rng st1, st_X st1, st_Y st1)
              = Inr (st_rng st2, st_X st2, st_Y st2)"
    unfolding epoch_pass_def ex_kept_entries ex_kept_values fst_conv snd_conv rng1 st2 sum.case by simp
  have fit: "fit ex_env ex_kept ex_Ciu
      = Inr (ex_kept\<lparr>item_factors := Some (st_Y st2), user_factors := Some (st_X st2)\<rparr>)"
    using r unfolding ex_kept_entries ex_kept_values accumulated_two p0 sum.case p1 by simp
  from r fit obtain X Y where
    XY: "user_factors (ex_kept\<lparr>item_factors := Some (st_Y st2), user_factors := Some (st_X st2)\<rparr>) = Some X"
      "item_factors (ex_kept\<lparr>item_factors := Some (st_Y st2), user_factors := Some (st_X st2)\<rparr>) = Some Y"
    and X: "\<forall>u j. u \<notin> set (col (as_float32 ex_env ex_Ciu)) \<longrightarrow> cell X u j = cell ex_X3 u j"
    and Y: "\<forall>i j. i \<notin> set (row (as_float32 ex_env ex_Ciu)) \<longrightarrow> cell Y i j = cell ex_Y3 i j"
    and b: "\<forall>u. cell X u (shape1 ex_X3 - 1) = cell ex_X3 u (shape1 ex_X3 - 1)"
    by blast
  have eq: "X = st_X st2" "Y = st_Y st2"
    using XY by simp_all
  have "cell X 0 0 = 5 \<and> cell X 0 1 = 5"
    using X [rule_format, of 0] by (simp add: ex_kept_entries ex_X3_def)
  moreover have "cell X 1 1 = 5"
    using b [rule_format, of 1] by (simp add: ex_X3_def)
  moreover have "cell Y 0 0 = 7 \<and> cell Y 0 1 = 7"
    using Y [rule_format, of 0] by (simp add: ex_kept_entries ex_Y3_def)
  moreover have "fit (ex_env\<lparr>rand_items := (\<lambda>i j. 9), rand_users := (\<lambda>i j. 8)\<rparr>) ex_kept ex_Ciu
       = fit ex_env ex_kept ex_Ciu"
    using r by blast
  ultimately show ?thesis
    using a ex_kept_values(4) fit XY old x2 y2 b2 unfolding eq by blast
qed


end
